theory Spec2Isabelle
  imports Main "HOL-Library.Word"
begin

section \<open>The option parser of \<^verbatim>\<open>vm/opt_parser.h\<close>\<close>

subsection \<open>Exceptions and outcomes\<close>

text \<open>
  The exception classes the code throws or catches. \<^verbatim>\<open>ParseException\<close> is the
  class of the header; \<^verbatim>\<open>std::out_of_range\<close> and \<^verbatim>\<open>std::invalid_argument\<close> are
  the two classes its handlers catch; every other class is \<open>other_exception\<close>.
  Each carries its message.
\<close>

datatype exn =
    ParseException string
  | out_of_range string
  | invalid_argument string
  | other_exception string

text \<open>
  A call either returns (\<open>None\<close>) or throws (\<open>Some e\<close>). State is threaded beside
  the outcome, since a mutation made before a throw stays made.
\<close>

type_synonym outcome = "exn option"

text \<open>
  A user handler is a \<^verbatim>\<open>std::function<void(T)>\<close>: it returns or throws. It is
  modelled without effect on the descriptors and on the parser.
\<close>

type_synonym 'a handler = "'a \<Rightarrow> outcome"

text \<open>\<^verbatim>\<open>if (userHandler != nullptr) (*userHandler)(pValue);\<close>\<close>

definition call_userHandler :: "'a handler option \<Rightarrow> 'a \<Rightarrow> outcome" where
  "call_userHandler userHandler v =
     (case userHandler of None \<Rightarrow> None | Some f \<Rightarrow> f v)"

subsection \<open>Characters and the library's number parsers\<close>

text \<open>
  Modelled from the spec: \<^verbatim>\<open>::isdigit\<close> and \<^verbatim>\<open>isspace\<close> are the C library's, not
  in the source; the spec speaks of digit and non-digit characters. They are taken in
  the C locale: the digits are \<open>0\<close> to \<open>9\<close>, white space is the space and the
  characters 9 to 13.
\<close>

definition isdigit :: "char \<Rightarrow> bool" where
  "isdigit c \<longleftrightarrow> (48::nat) \<le> of_char c \<and> (of_char c :: nat) \<le> 57"

definition isspace :: "char \<Rightarrow> bool" where
  "isspace c \<longleftrightarrow> (of_char c :: nat) = 32 \<or> ((9::nat) \<le> of_char c \<and> (of_char c :: nat) \<le> 13)"

definition digit_value :: "char \<Rightarrow> int" where
  "digit_value c = of_char c - 48"

text \<open>The number a run of decimal digits denotes, most significant digit first.\<close>

definition digits_value :: "string \<Rightarrow> int" where
  "digits_value ds = foldl (\<lambda>acc c. 10 * acc + digit_value c) 0 ds"

text \<open>\<^verbatim>\<open>bool isUint(const std::string &s)\<close>: \<^verbatim>\<open>std::all_of(s.begin(), s.end(), ::isdigit)\<close>.\<close>

definition isUint :: "string \<Rightarrow> bool" where
  "isUint s = list_all isdigit s"

text \<open>
  What \<^verbatim>\<open>strtoll\<close> and \<^verbatim>\<open>strtoull\<close> read in base 10: leading white space is
  skipped, one sign is optional, and the longest run of digits that follows is the
  number; what comes after the digits is ignored. The result is the sign and the
  digits.
\<close>

definition scan_number :: "string \<Rightarrow> bool \<times> string" where
  "scan_number s =
     (let s1 = dropWhile isspace s in
      case s1 of
        [] \<Rightarrow> (False, [])
      | c # r \<Rightarrow>
          if c = CHR ''-'' then (True, takeWhile isdigit r)
          else if c = CHR ''+'' then (False, takeWhile isdigit r)
          else (False, takeWhile isdigit s1))"

text \<open>
  Modelled from the spec: \<^verbatim>\<open>std::stoll\<close> is the C++ standard library's, not in the
  source; the spec calls it a decimal parse that fails with a range error outside the
  signed 64-bit bounds and with a format error on text that is not numeric. The model
  is \<^verbatim>\<open>strtoll\<close> in base 10: no digit throws \<^verbatim>\<open>std::invalid_argument\<close>, a number
  outside \<open>[-2^63, 2^63 - 1]\<close> throws \<^verbatim>\<open>std::out_of_range\<close>.
\<close>

definition stoll :: "string \<Rightarrow> exn + 64 word" where
  "stoll s =
     (let (neg, ds) = scan_number s in
      if ds = [] then Inl (invalid_argument ''stoll'')
      else
        let n = digits_value ds; v = (if neg then - n else n) in
        if v < - (2 ^ 63) \<or> 2 ^ 63 - 1 < v then Inl (out_of_range ''stoll'')
        else Inr (word_of_int v))"

text \<open>
  Modelled from the spec: \<^verbatim>\<open>std::stoull\<close> is the C++ standard library's, not in the
  source; the spec calls it a decimal parse as unsigned 64-bit that fails out of range.
  The model is \<^verbatim>\<open>strtoull\<close> in base 10: no digit throws \<^verbatim>\<open>std::invalid_argument\<close>,
  digits above \<open>2^64 - 1\<close> throw \<^verbatim>\<open>std::out_of_range\<close>, and a minus sign negates
  modulo \<open>2^64\<close>.
\<close>

definition stoull :: "string \<Rightarrow> exn + 64 word" where
  "stoull s =
     (let (neg, ds) = scan_number s in
      if ds = [] then Inl (invalid_argument ''stoull'')
      else
        let n = digits_value ds in
        if 2 ^ 64 - 1 < n then Inl (out_of_range ''stoull'')
        else Inr (word_of_int (if neg then - n else n)))"

subsection \<open>Option descriptors\<close>

text \<open>
  The class \<^verbatim>\<open>Opt\<close> and its four subclasses. The fields of the base class are the
  record; the subclass, with its \<^verbatim>\<open>pValue\<close> and \<^verbatim>\<open>userHandler\<close>, is the field
  \<open>kind\<close>. \<^verbatim>\<open>int64_t\<close> and \<^verbatim>\<open>uint64_t\<close> are 64-bit words, read with \<open>sint\<close> and
  \<open>unat\<close>.
\<close>

datatype OptKind =
    PlainOpt
  | BoolOpt bool "bool handler option"
  | IntOpt "64 word" "64 word handler option"
  | UintOpt "64 word" "64 word handler option"
  | StrOpt string "string handler option"

record Opt =
  shortName :: char
  longName :: string
  description :: string
  present :: bool
  kind :: OptKind

text \<open>\<^verbatim>\<open>void Opt::setPresent()\<close>\<close>

definition setPresent :: "Opt \<Rightarrow> Opt" where
  "setPresent opt = opt\<lparr>present := True\<rparr>"

text \<open>
  \<^verbatim>\<open>BoolOpt::defaultHandler\<close>, on the fields of the subclass: the outcome and the new
  \<^verbatim>\<open>pValue\<close>.
\<close>

definition BoolOpt_defaultHandler ::
  "bool \<Rightarrow> string \<Rightarrow> bool \<Rightarrow> bool handler option \<Rightarrow> outcome \<times> bool" where
  "BoolOpt_defaultHandler isPresent value pValue userHandler =
     (if isPresent then (Some (ParseException ''Argument does not expect a value''), pValue)
      else (call_userHandler userHandler True, True))"

text \<open>
  The two \<^verbatim>\<open>catch\<close> clauses of \<^verbatim>\<open>IntOpt::defaultHandler\<close>; its \<^verbatim>\<open>try\<close> block
  holds the call of \<^verbatim>\<open>stoll\<close> and the call of the user handler.
\<close>

definition IntOpt_catch :: "exn \<Rightarrow> exn" where
  "IntOpt_catch e =
     (case e of
        out_of_range _ \<Rightarrow> ParseException ''Value is not in range of a 64 bit int''
      | invalid_argument _ \<Rightarrow> ParseException ''Argument expects an integer value''
      | _ \<Rightarrow> e)"

definition IntOpt_defaultHandler ::
  "bool \<Rightarrow> string \<Rightarrow> 64 word \<Rightarrow> 64 word handler option \<Rightarrow> outcome \<times> 64 word" where
  "IntOpt_defaultHandler isPresent value pValue userHandler =
     (if \<not> isPresent then (Some (ParseException ''Argument expects an integer value''), pValue)
      else
        case stoll value of
          Inl e \<Rightarrow> (Some (IntOpt_catch e), pValue)
        | Inr v \<Rightarrow> (map_option IntOpt_catch (call_userHandler userHandler v), v))"

definition UintOpt_catch :: "exn \<Rightarrow> exn" where
  "UintOpt_catch e =
     (case e of
        out_of_range _ \<Rightarrow> ParseException ''Value is not in range of a 64 bit unsigned integer''
      | invalid_argument _ \<Rightarrow> ParseException ''Argument expects an non negative int value''
      | _ \<Rightarrow> e)"

definition UintOpt_defaultHandler ::
  "bool \<Rightarrow> string \<Rightarrow> 64 word \<Rightarrow> 64 word handler option \<Rightarrow> outcome \<times> 64 word" where
  "UintOpt_defaultHandler isPresent value pValue userHandler =
     (if \<not> isPresent \<or> \<not> isUint value
      then (Some (ParseException ''Argument expects an non negative int value''), pValue)
      else
        case stoull value of
          Inl e \<Rightarrow> (Some (UintOpt_catch e), pValue)
        | Inr v \<Rightarrow> (map_option UintOpt_catch (call_userHandler userHandler v), v))"

definition StrOpt_defaultHandler ::
  "bool \<Rightarrow> string \<Rightarrow> string \<Rightarrow> string handler option \<Rightarrow> outcome \<times> string" where
  "StrOpt_defaultHandler isPresent value pValue userHandler =
     (if \<not> isPresent then (Some (ParseException ''Argument expects a value''), pValue)
      else (call_userHandler userHandler value, value))"

text \<open>
  The virtual call \<^verbatim>\<open>defaultHandler(isPresent, value)\<close> on a descriptor; the one of
  the base class does nothing.
\<close>

definition defaultHandler :: "bool \<Rightarrow> string \<Rightarrow> Opt \<Rightarrow> outcome \<times> Opt" where
  "defaultHandler isPresent value opt =
     (case kind opt of
        PlainOpt \<Rightarrow> (None, opt)
      | BoolOpt pValue userHandler \<Rightarrow>
          (let (r, v) = BoolOpt_defaultHandler isPresent value pValue userHandler
           in (r, opt\<lparr>kind := BoolOpt v userHandler\<rparr>))
      | IntOpt pValue userHandler \<Rightarrow>
          (let (r, v) = IntOpt_defaultHandler isPresent value pValue userHandler
           in (r, opt\<lparr>kind := IntOpt v userHandler\<rparr>))
      | UintOpt pValue userHandler \<Rightarrow>
          (let (r, v) = UintOpt_defaultHandler isPresent value pValue userHandler
           in (r, opt\<lparr>kind := UintOpt v userHandler\<rparr>))
      | StrOpt pValue userHandler \<Rightarrow>
          (let (r, v) = StrOpt_defaultHandler isPresent value pValue userHandler
           in (r, opt\<lparr>kind := StrOpt v userHandler\<rparr>)))"

subsection \<open>The parser\<close>

text \<open>
  The registry holds references to descriptors the caller owns. The descriptors live
  in a store, addressed by number; a reference is an address, so a descriptor added
  twice is one object.
\<close>

type_synonym addr = nat
type_synonym store = "addr \<Rightarrow> Opt"

text \<open>
  \<^verbatim>\<open>programArgv\<close> points into \<^verbatim>\<open>argv\<close>: it is \<open>None\<close> for \<^verbatim>\<open>nullptr\<close> and
  otherwise the tokens from the one it points at to the end of \<^verbatim>\<open>argv\<close>.
\<close>

record OptParser =
  argOptions :: "addr list"
  programName :: string
  programArgc :: int
  programArgv :: "string list option"

text \<open>\<^verbatim>\<open>OptParser::OptParser()\<close> and \<^verbatim>\<open>OptParser::add\<close>.\<close>

definition new_OptParser :: OptParser where
  "new_OptParser = \<lparr>argOptions = [], programName = [], programArgc = 0, programArgv = None\<rparr>"

definition add :: "addr \<Rightarrow> OptParser \<Rightarrow> OptParser" where
  "add opt p = p\<lparr>argOptions := argOptions p @ [opt]\<rparr>"

text \<open>The two \<^verbatim>\<open>std::find_if\<close> scans; \<open>None\<close> is \<^verbatim>\<open>argOptions.end()\<close>.\<close>

definition findArgByShortName :: "OptParser \<Rightarrow> store \<Rightarrow> char \<Rightarrow> addr option" where
  "findArgByShortName p h c = find (\<lambda>a. shortName (h a) = c) (argOptions p)"

definition findArgByLongName :: "OptParser \<Rightarrow> store \<Rightarrow> string \<Rightarrow> addr option" where
  "findArgByLongName p h name = find (\<lambda>a. longName (h a) = name) (argOptions p)"

text \<open>
  The \<^verbatim>\<open>else\<close> branch shared by the two resolving overloads of \<^verbatim>\<open>parse\<close>:
  \<^verbatim>\<open>setPresent\<close>, then \<^verbatim>\<open>defaultHandler\<close>, on the descriptor at \<open>a\<close>; a
  \<^verbatim>\<open>ParseException\<close> is caught and thrown again behind \<^verbatim>\<open>"Parsing of " + key + " failed: "\<close>.
\<close>

definition resolve :: "addr \<Rightarrow> string \<Rightarrow> bool \<Rightarrow> string \<Rightarrow> store \<Rightarrow> outcome \<times> store" where
  "resolve a key isValPresent value h =
     (let h1 = h(a := setPresent (h a));
          (r, opt) = defaultHandler isValPresent value (h1 a);
          h2 = h1(a := opt)
      in case r of
           Some (ParseException msg) \<Rightarrow>
             (Some (ParseException (''Parsing of '' @ key @ '' failed: '' @ msg)), h2)
         | _ \<Rightarrow> (r, h2))"

text \<open>\<^verbatim>\<open>void OptParser::parse(std::string key, bool isValPresent, std::string value)\<close>\<close>

definition parse_string :: "OptParser \<Rightarrow> string \<Rightarrow> bool \<Rightarrow> string \<Rightarrow> store \<Rightarrow> outcome \<times> store" where
  "parse_string p key isValPresent value h =
     (case findArgByLongName p h key of
        None \<Rightarrow> (Some (ParseException (''No such option '' @ key)), h)
      | Some a \<Rightarrow> resolve a key isValPresent value h)"

text \<open>\<^verbatim>\<open>void OptParser::parse(char key, bool isValPresent, std::string value)\<close>\<close>

definition parse_char :: "OptParser \<Rightarrow> char \<Rightarrow> bool \<Rightarrow> string \<Rightarrow> store \<Rightarrow> outcome \<times> store" where
  "parse_char p key isValPresent value h =
     (case findArgByShortName p h key of
        None \<Rightarrow> (Some (ParseException (''No such option '' @ [key])), h)
      | Some a \<Rightarrow> resolve a [key] isValPresent value h)"

text \<open>\<^verbatim>\<open>str.find("=")\<close>: the index of the first \<open>=\<close>, \<open>None\<close> for \<^verbatim>\<open>npos\<close>.\<close>

fun str_find :: "char \<Rightarrow> string \<Rightarrow> nat option" where
  "str_find c [] = None"
| "str_find c (x # xs) =
     (if x = c then Some 0 else map_option Suc (str_find c xs))"

text \<open>\<^verbatim>\<open>str.substr(pos, n)\<close> for \<open>pos \<le> length str\<close>, as at both calls.\<close>

definition substr :: "string \<Rightarrow> nat \<Rightarrow> nat \<Rightarrow> string" where
  "substr str pos n = take n (drop pos str)"

text \<open>
  The range-based loop of \<^verbatim>\<open>parseShortName\<close>: \<^verbatim>\<open>parse(argName)\<close> for each
  character; a throw leaves the loop.
\<close>

fun parse_each :: "OptParser \<Rightarrow> string \<Rightarrow> store \<Rightarrow> outcome \<times> store" where
  "parse_each p [] h = (None, h)"
| "parse_each p (argName # rest) h =
     (case parse_char p argName False [] h of
        (Some e, h') \<Rightarrow> (Some e, h')
      | (None, h') \<Rightarrow> parse_each p rest h')"

text \<open>
  The indexed loop of \<^verbatim>\<open>parseShortName\<close>, from index \<open>i\<close>: the value goes to the
  character at \<^verbatim>\<open>args.length() - 1\<close>.
\<close>

function parse_args :: "OptParser \<Rightarrow> string \<Rightarrow> string \<Rightarrow> nat \<Rightarrow> store \<Rightarrow> outcome \<times> store" where
  "parse_args p args value i h =
     (if i < length args then
        (case (if i \<noteq> length args - 1 then parse_char p (args ! i) False [] h
               else parse_char p (args ! i) True value h) of
           (Some e, h') \<Rightarrow> (Some e, h')
         | (None, h') \<Rightarrow> parse_args p args value (i + 1) h')
      else (None, h))"
  by pat_completeness auto
termination
  by (relation "measure (\<lambda>(p, args, value, i, h). length args - i)") auto

declare parse_args.simps [simp del]

text \<open>\<^verbatim>\<open>void OptParser::parseShortName(const char *token)\<close>\<close>

definition parseShortName :: "OptParser \<Rightarrow> string \<Rightarrow> store \<Rightarrow> outcome \<times> store" where
  "parseShortName p str h =
     (case str_find CHR ''='' str of
        None \<Rightarrow> parse_each p str h
      | Some idx \<Rightarrow>
          (let args = substr str 0 idx;
               value = substr str (idx + 1) (length str)
           in parse_args p args value 0 h))"

text \<open>\<^verbatim>\<open>void OptParser::parseLongName(const char *token)\<close>\<close>

definition parseLongName :: "OptParser \<Rightarrow> string \<Rightarrow> store \<Rightarrow> outcome \<times> store" where
  "parseLongName p str h =
     (case str_find CHR ''='' str of
        None \<Rightarrow> parse_string p str False [] h
      | Some idx \<Rightarrow>
          (let argName = substr str 0 idx;
               value = substr str (idx + 1) (length str)
           in parse_string p argName True value h))"

text \<open>\<^verbatim>\<open>void OptParser::parseProgramName(const char *name)\<close>\<close>

definition parseProgramName :: "string \<Rightarrow> OptParser \<Rightarrow> outcome \<times> OptParser" where
  "parseProgramName str p =
     (if programName p \<noteq> [] then (Some (ParseException (''Bad option - '' @ str)), p)
      else (None, p\<lparr>programName := str\<rparr>))"

text \<open>
  The \<^verbatim>\<open>while\<close> loop of \<^verbatim>\<open>OptParser::parse(int argc, char *argv[])\<close>, on the tokens
  from \<^verbatim>\<open>argv[index]\<close> to the end of \<^verbatim>\<open>argv\<close>; \<^verbatim>\<open>argc\<close> is the length of
  \<^verbatim>\<open>argv\<close>, so \<^verbatim>\<open>argc - index\<close> after \<^verbatim>\<open>++index\<close> is the number of tokens that
  follow the current one. A token is a C string, so \<^verbatim>\<open>strlen\<close> is its length and
  \<^verbatim>\<open>strcmp(current, "--") == 0\<close> is equality with \<^verbatim>\<open>--\<close>. The two characters
  \<^verbatim>\<open>current[0]\<close> and \<^verbatim>\<open>current[1]\<close> are read only when the length is at least 2.
\<close>

fun parse_loop :: "string list \<Rightarrow> OptParser \<times> store \<Rightarrow> outcome \<times> OptParser \<times> store" where
  "parse_loop [] (p, h) = (None, p, h)"
| "parse_loop (current # rest) (p, h) =
     (if length current < 2 then
        (case parseProgramName current p of
           (Some e, p') \<Rightarrow> (Some e, p', h)
         | (None, p') \<Rightarrow> parse_loop rest (p', h))
      else if current = ''--'' then
        (if programName p = []
         then (Some (ParseException ''Program filename must be specified before arguments''), p, h)
         else (None, p\<lparr>programArgc := int (length rest), programArgv := Some rest\<rparr>, h))
      else if current ! 0 = CHR ''-'' then
        (case (if current ! 1 = CHR ''-'' then parseLongName p (drop 2 current) h
               else parseShortName p (drop 1 current) h) of
           (Some e, h') \<Rightarrow> (Some e, p, h')
         | (None, h') \<Rightarrow> parse_loop rest (p, h'))
      else
        (case parseProgramName current p of
           (Some e, p') \<Rightarrow> (Some e, p', h)
         | (None, p') \<Rightarrow> parse_loop rest (p', h)))"

text \<open>
  \<^verbatim>\<open>void OptParser::parse(int argc, char *argv[])\<close>: the loop starts at index 1.
\<close>

definition parse :: "string list \<Rightarrow> OptParser \<times> store \<Rightarrow> outcome \<times> OptParser \<times> store" where
  "parse argv s = parse_loop (drop 1 argv) s"

subsection \<open>Decimal text\<close>

text \<open>
  The decimal text that denotes an integer: its digits, most significant first, behind
  a minus sign when it is negative.
\<close>

fun decimal_of_nat :: "nat \<Rightarrow> string" where
  "decimal_of_nat n =
     (if n < 10 then [char_of (48 + n)]
      else decimal_of_nat (n div 10) @ [char_of (48 + n mod 10)])"

declare decimal_of_nat.simps [simp del]

definition decimal_of_int :: "int \<Rightarrow> string" where
  "decimal_of_int i =
     (if i < 0 then CHR ''-'' # decimal_of_nat (nat (- i)) else decimal_of_nat (nat i))"

subsection \<open>The resolutions of a short-option cluster\<close>

text \<open>
  The resolutions a cluster asks for, as the specification words them: without \<open>=\<close>
  every character is a flag without value; with \<open>=\<close> the characters before it are the
  names and the text after it the value, every name but the last is a flag without
  value, and the last name receives the value.
\<close>

definition cluster_steps :: "string \<Rightarrow> (char \<times> bool \<times> string) list" where
  "cluster_steps str =
     (if CHR ''='' \<notin> set str then map (\<lambda>c. (c, False, [])) str
      else
        let names = takeWhile (\<lambda>c. c \<noteq> CHR ''='') str;
            value = tl (dropWhile (\<lambda>c. c \<noteq> CHR ''='') str)
        in if names = [] then []
           else map (\<lambda>c. (c, False, [])) (butlast names) @ [(last names, True, value)])"

text \<open>Resolving a list of names from left to right, up to the first failure.\<close>

fun resolve_all :: "OptParser \<Rightarrow> (char \<times> bool \<times> string) list \<Rightarrow> store \<Rightarrow> outcome \<times> store" where
  "resolve_all p [] h = (None, h)"
| "resolve_all p ((c, isValPresent, value) # rest) h =
     (case parse_char p c isValPresent value h of
        (Some e, h') \<Rightarrow> (Some e, h')
      | (None, h') \<Rightarrow> resolve_all p rest h')"

subsection \<open>The descriptors of the self-tests\<close>

text \<open>
  The registry of \<^verbatim>\<open>testOptParser4\<close> and \<^verbatim>\<open>testOptParser5\<close>: \<^verbatim>\<open>is\<close>, \<^verbatim>\<open>js\<close>,
  \<^verbatim>\<open>ks\<close> and \<^verbatim>\<open>ls\<close> at the addresses 0 to 3. \<^verbatim>\<open>ks\<close> is built without short name,
  which the constructor sets to \<open>-\<close>.
\<close>

definition no_opt :: Opt where
  "no_opt = \<lparr>shortName = CHR ''-'', longName = [], description = [], present = False,
     kind = PlainOpt\<rparr>"

definition test_store :: store where
  "test_store = (\<lambda>_. no_opt)
     (0 := \<lparr>shortName = CHR ''i'', longName = ''is'',
         description = ''the value of some field is'', present = False,
         kind = BoolOpt False None\<rparr>,
      1 := \<lparr>shortName = CHR ''j'', longName = ''js'',
         description = ''the value of some field js'', present = False,
         kind = IntOpt 1100 None\<rparr>,
      2 := \<lparr>shortName = CHR ''-'', longName = ''ks'',
         description = ''the value of some field ks'', present = False,
         kind = UintOpt 2200 None\<rparr>,
      3 := \<lparr>shortName = CHR ''l'', longName = ''ls'',
         description = ''the value of some field ls'', present = False,
         kind = StrOpt ''Blah'' None\<rparr>)"

definition test_parser :: OptParser where
  "test_parser = add 3 (add 2 (add 1 (add 0 new_OptParser)))"

text \<open>
  \<^verbatim>\<open>customChecker\<close> of \<^verbatim>\<open>testOptParser0\<close>, and the store in which \<^verbatim>\<open>js\<close> has it
  as its user handler.
\<close>

definition customChecker :: "64 word handler" where
  "customChecker x =
     (if 1000 < sint x then Some (ParseException ''Value is more that 1000'') else None)"

definition test_store0 :: store where
  "test_store0 = test_store
     (1 := \<lparr>shortName = CHR ''j'', longName = ''js'',
         description = ''the value of some field js'', present = False,
         kind = IntOpt 1100 (Some customChecker)\<rparr>)"

subsection \<open>The resolution of a long-option token, and the names of a token\<close>

text \<open>
  The resolution the text of a long-option token asks for, as the specification words
  it: without \<open>=\<close> the text is the name and there is no value; with \<open>=\<close> the name
  is the text before the first \<open>=\<close> and the value the text after it.
\<close>

definition long_step :: "string \<Rightarrow> string \<times> bool \<times> string" where
  "long_step str =
     (if CHR ''='' \<notin> set str then (str, False, [])
      else (takeWhile (\<lambda>c. c \<noteq> CHR ''='') str, True,
            tl (dropWhile (\<lambda>c. c \<noteq> CHR ''='') str)))"


text \<open>A user handler that throws on every value.\<close>

definition rejecting :: "'a handler" where
  "rejecting x = Some (ParseException ''rejected'')"

section \<open>Properties\<close>

subsection \<open>Decimal text and the number parsers\<close>

lemma isdigit_char_of: "d < 10 \<Longrightarrow> isdigit (char_of (48 + d :: nat))"
  by (simp add: isdigit_def)

lemma digit_value_char_of: "d < 10 \<Longrightarrow> digit_value (char_of (48 + d :: nat)) = int d"
proof -
  assume d: "d < 10"
  have "(of_char (char_of (48 + d)) :: int) = int (of_char (char_of (48 + d)))"
    by (simp only: of_nat_of_char)
  also have "\<dots> = int (48 + d)"
    using d by simp
  finally show ?thesis by (simp add: digit_value_def)
qed

lemma isdigit_not_isspace: "isdigit c \<Longrightarrow> \<not> isspace c"
  by (auto simp: isdigit_def isspace_def)

lemma isdigit_not_sign: "isdigit c \<Longrightarrow> c \<noteq> CHR ''-'' \<and> c \<noteq> CHR ''+''"
  by (auto simp: isdigit_def)

lemma decimal_of_nat_digits: "list_all isdigit (decimal_of_nat n)"
proof (induction n rule: decimal_of_nat.induct)
  case (1 n)
  show ?case
  proof (cases "n < 10")
    case True
    then show ?thesis by (simp add: decimal_of_nat.simps [of n] isdigit_char_of)
  next
    case False
    with 1 show ?thesis by (simp add: decimal_of_nat.simps [of n] isdigit_char_of)
  qed
qed

lemma decimal_of_nat_nonempty: "decimal_of_nat n \<noteq> []"
  by (simp add: decimal_of_nat.simps [of n])

lemma digits_value_snoc: "digits_value (ds @ [c]) = 10 * digits_value ds + digit_value c"
  by (simp add: digits_value_def)

lemma digits_value_decimal_of_nat: "digits_value (decimal_of_nat n) = int n"
proof (induction n rule: decimal_of_nat.induct)
  case (1 n)
  show ?case
  proof (cases "n < 10")
    case True
    then show ?thesis
      by (simp add: decimal_of_nat.simps [of n] digits_value_def digit_value_char_of)
  next
    case False
    then have "digits_value (decimal_of_nat n) = 10 * int (n div 10) + int (n mod 10)"
      using 1 by (simp add: decimal_of_nat.simps [of n] digits_value_snoc digit_value_char_of)
    then show ?thesis by (simp add: zdiv_int zmod_int)
  qed
qed

lemma scan_number_digits:
  assumes "list_all isdigit ds" "ds \<noteq> []"
  shows "scan_number ds = (False, ds)" and "scan_number (CHR ''-'' # ds) = (True, ds)"
proof -
  from assms obtain c r where ds: "ds = c # r" and c: "isdigit c"
    by (cases ds) auto
  have tw: "takeWhile isdigit ds = ds"
    using assms(1) by (simp add: list_all_iff)
  show "scan_number ds = (False, ds)"
    using c tw isdigit_not_isspace [OF c] isdigit_not_sign [OF c]
    by (simp add: scan_number_def ds)
  show "scan_number (CHR ''-'' # ds) = (True, ds)"
    using tw by (simp add: scan_number_def isspace_def)
qed

lemma stoll_decimal_of_int:
  assumes "- (2 ^ 63) \<le> i" "i \<le> 2 ^ 63 - 1"
  shows "stoll (decimal_of_int i) = Inr (word_of_int i)"
proof (cases "i < 0")
  case True
  then show ?thesis
    using assms
    by (simp add: stoll_def decimal_of_int_def digits_value_decimal_of_nat decimal_of_nat_nonempty
        scan_number_digits(2) [OF decimal_of_nat_digits decimal_of_nat_nonempty])
next
  case False
  then show ?thesis
    using assms
    by (simp add: stoll_def decimal_of_int_def digits_value_decimal_of_nat decimal_of_nat_nonempty
        scan_number_digits(1) [OF decimal_of_nat_digits decimal_of_nat_nonempty])
qed

lemma sint_word_of_int_64:
  assumes "- (2 ^ 63) \<le> i" "i \<le> 2 ^ 63 - 1"
  shows "sint (word_of_int i :: 64 word) = i"
  using assms by (simp add: sint_sbintrunc' signed_take_bit_int_eq_self)

lemma stoll_2_63: "stoll ''9223372036854775808'' = Inl (out_of_range ''stoll'')"
  by (simp add: stoll_def scan_number_def isspace_def isdigit_def digits_value_def
      digit_value_def)

lemma stoull_2_63: "stoull ''9223372036854775808'' = Inr (2 ^ 63)"
  by (simp add: stoull_def scan_number_def isspace_def isdigit_def digits_value_def
      digit_value_def)

subsection \<open>Coercion of the integer options\<close>

text \<open>
  C3. For a signed-integer option, the coercion of the decimal text of an integer \<open>i\<close>
  with \<open>-2^63 \<le> i \<le> 2^63 - 1\<close> stores the 64-bit value that reads back as \<open>i\<close>,
  and its outcome is the one of the user handler, if there is one. The coercion of
  \<^verbatim>\<open>"9223372036854775808"\<close> throws the range error and leaves the descriptor as it
  was.
\<close>

theorem IntOpt_coercion_roundtrip:
  assumes "kind opt = IntOpt pValue userHandler"
  shows "(- (2 ^ 63) \<le> i \<and> i \<le> 2 ^ 63 - 1 \<longrightarrow>
           defaultHandler True (decimal_of_int i) opt =
             (map_option IntOpt_catch (call_userHandler userHandler (word_of_int i)),
              opt\<lparr>kind := IntOpt (word_of_int i) userHandler\<rparr>)
           \<and> sint (word_of_int i :: 64 word) = i)
         \<and> defaultHandler True ''9223372036854775808'' opt =
             (Some (ParseException ''Value is not in range of a 64 bit int''), opt)"
proof (intro conjI impI)
  assume r: "- (2 ^ 63) \<le> i \<and> i \<le> 2 ^ 63 - 1"
  then show "defaultHandler True (decimal_of_int i) opt =
      (map_option IntOpt_catch (call_userHandler userHandler (word_of_int i)),
       opt\<lparr>kind := IntOpt (word_of_int i) userHandler\<rparr>)"
    using assms by (simp add: defaultHandler_def IntOpt_defaultHandler_def stoll_decimal_of_int)
  from r show "sint (word_of_int i :: 64 word) = i"
    by (simp add: sint_word_of_int_64)
next
  show "defaultHandler True ''9223372036854775808'' opt =
      (Some (ParseException ''Value is not in range of a 64 bit int''), opt)"
    using assms
    by (simp add: defaultHandler_def IntOpt_defaultHandler_def stoll_2_63 IntOpt_catch_def)
qed

theorem IntOpt_coercion_roundtrip_witness:
  "kind (test_store 1) = IntOpt 1100 None
   \<and> - (2 ^ 63) \<le> (4100 :: int) \<and> (4100 :: int) \<le> 2 ^ 63 - 1
   \<and> decimal_of_int 4100 = ''4100''
   \<and> defaultHandler True ''4100'' (test_store 1) =
       (None, (test_store 1)\<lparr>kind := IntOpt 4100 None\<rparr>)
   \<and> sint (4100 :: 64 word) = 4100
   \<and> defaultHandler True ''9223372036854775808'' (test_store 1) =
       (Some (ParseException ''Value is not in range of a 64 bit int''), test_store 1)"
proof -
  have k: "kind (test_store 1) = IntOpt 1100 None"
    by (simp add: test_store_def)
  have d: "decimal_of_int 4100 = ''4100''"
    by (simp add: decimal_of_int_def decimal_of_nat.simps char_of_def bit_Suc_0_iff)
  show ?thesis
    using IntOpt_coercion_roundtrip [OF k, of 4100] k d
    by (simp add: call_userHandler_def)
qed

text \<open>
  C4. For an unsigned-integer option, the coercion throws, and leaves the descriptor as
  it was, when no value is attached or the text has a character that is not a digit, so
  for every text with a \<open>-\<close> in it. The coercion of \<^verbatim>\<open>"9223372036854775808"\<close> stores
  \<open>2^63\<close>, and its outcome is the one of the user handler, if there is one.
\<close>

theorem UintOpt_coercion:
  assumes "kind opt = UintOpt pValue userHandler"
  shows "(\<not> isPresent \<or> (\<exists>c \<in> set value. \<not> isdigit c) \<longrightarrow>
           defaultHandler isPresent value opt =
             (Some (ParseException ''Argument expects an non negative int value''), opt))
         \<and> (CHR ''-'' \<in> set value \<longrightarrow>
           defaultHandler isPresent value opt =
             (Some (ParseException ''Argument expects an non negative int value''), opt))
         \<and> defaultHandler True ''9223372036854775808'' opt =
             (map_option UintOpt_catch (call_userHandler userHandler (2 ^ 63)),
              opt\<lparr>kind := UintOpt (2 ^ 63) userHandler\<rparr>)
         \<and> unat (2 ^ 63 :: 64 word) = 2 ^ 63"
proof -
  have fail: "defaultHandler isPresent value opt =
      (Some (ParseException ''Argument expects an non negative int value''), opt)"
    if "\<not> isPresent \<or> \<not> isUint value"
    using that assms by (auto simp: defaultHandler_def UintOpt_defaultHandler_def)
  have minus: "\<not> isdigit CHR ''-''"
    by (simp add: isdigit_def)
  have u: "isUint ''9223372036854775808''"
    by (simp add: isUint_def isdigit_def)
  have ok: "defaultHandler True ''9223372036854775808'' opt =
      (map_option UintOpt_catch (call_userHandler userHandler (2 ^ 63)),
       opt\<lparr>kind := UintOpt (2 ^ 63) userHandler\<rparr>)"
    using assms u by (simp add: defaultHandler_def UintOpt_defaultHandler_def stoull_2_63)
  have n: "unat (2 ^ 63 :: 64 word) = 2 ^ 63"
    by simp
  show ?thesis
    using fail minus ok n by (auto simp: isUint_def list_all_iff)
qed

theorem UintOpt_coercion_witness:
  "kind (test_store 2) = UintOpt 2200 None
   \<and> (\<exists>c \<in> set ''-22''. \<not> isdigit c) \<and> CHR ''-'' \<in> set ''-22''
   \<and> defaultHandler True ''-22'' (test_store 2) =
       (Some (ParseException ''Argument expects an non negative int value''), test_store 2)
   \<and> defaultHandler False [] (test_store 2) =
       (Some (ParseException ''Argument expects an non negative int value''), test_store 2)
   \<and> defaultHandler True ''9223372036854775808'' (test_store 2) =
       (None, (test_store 2)\<lparr>kind := UintOpt 9223372036854775808 None\<rparr>)"
proof -
  have k: "kind (test_store 2) = UintOpt 2200 None"
    by (simp add: test_store_def)
  have m: "\<exists>c \<in> set ''-22''. \<not> isdigit c"
    by (simp add: isdigit_def)
  show ?thesis
    using UintOpt_coercion [OF k, of True "''-22''"] UintOpt_coercion [OF k, of False "[]"] k m
    by (simp add: call_userHandler_def)
qed

subsection \<open>Resolution of a name\<close>

lemma defaultHandler_fields:
  "shortName (snd (defaultHandler isPresent value opt)) = shortName opt"
  "longName (snd (defaultHandler isPresent value opt)) = longName opt"
  "description (snd (defaultHandler isPresent value opt)) = description opt"
  "present (snd (defaultHandler isPresent value opt)) = present opt"
  by (simp_all add: defaultHandler_def split: OptKind.split prod.split)

lemma resolve_store:
  "snd (resolve a key isValPresent value h) =
     h(a := snd (defaultHandler isValPresent value (setPresent (h a))))"
  by (simp add: resolve_def Let_def split: prod.split option.split exn.split)

lemma resolve_present: "present (snd (resolve a key isValPresent value h) a)"
  by (simp add: resolve_store defaultHandler_fields setPresent_def)

lemma findArgByShortName_cong:
  "(\<And>b. shortName (h' b) = shortName (h b)) \<Longrightarrow>
     findArgByShortName p h' c = findArgByShortName p h c"
  by (simp add: findArgByShortName_def)

subsection \<open>The split at the first \<open>=\<close>\<close>

lemma str_find_None: "str_find c s = None \<longleftrightarrow> c \<notin> set s"
  by (induction s) auto

lemma str_find_Some:
  "str_find c s = Some idx \<Longrightarrow>
     take idx s = takeWhile (\<lambda>x. x \<noteq> c) s \<and> drop (Suc idx) s = tl (dropWhile (\<lambda>x. x \<noteq> c) s)"
  by (induction s arbitrary: idx) (auto split: if_splits)

lemma str_find_append:
  "c \<notin> set name \<Longrightarrow> str_find c (name @ c # value) = Some (length name)"
  by (induction name) auto

lemma substr_split:
  "str_find c s = Some idx \<Longrightarrow>
     substr s 0 idx = takeWhile (\<lambda>x. x \<noteq> c) s \<and>
     substr s (idx + 1) (length s) = tl (dropWhile (\<lambda>x. x \<noteq> c) s)"
proof -
  assume f: "str_find c s = Some idx"
  have "take (length s) (drop (idx + 1) s) = drop (idx + 1) s"
    by simp
  then show ?thesis
    using str_find_Some [OF f] by (simp add: substr_def)
qed

subsection \<open>The loops of \<^verbatim>\<open>parseShortName\<close>\<close>

lemma parse_args_drop:
  assumes len: "length steps = length args"
    and nth: "\<And>i. i < length args \<Longrightarrow>
      steps ! i = (if i \<noteq> length args - 1 then (args ! i, False, []) else (args ! i, True, value))"
  shows "parse_args p args value i h = resolve_all p (drop i steps) h"
  using assms
proof (induction p args "value" i h rule: parse_args.induct)
  case (1 p args "value" i h)
  note len = 1(2) and nth = 1(3)
  show ?case
  proof (cases "i < length args")
    case False
    then have "drop i steps = []"
      using len by simp
    then show ?thesis
      using False by (simp add: parse_args.simps [of p args "value" i h])
  next
    case True
    have dr: "drop i steps = steps ! i # drop (Suc i) steps"
      using True len by (simp add: Cons_nth_drop_Suc)
    obtain r h' where ph:
      "(if i \<noteq> length args - 1 then parse_char p (args ! i) False [] h
        else parse_char p (args ! i) True value h) = (r, h')"
      by (cases "if i \<noteq> length args - 1 then parse_char p (args ! i) False [] h
        else parse_char p (args ! i) True value h")
    have step: "resolve_all p (drop i steps) h =
        (case r of Some e \<Rightarrow> (Some e, h') | None \<Rightarrow> resolve_all p (drop (Suc i) steps) h')"
      using ph nth [OF True] by (cases r) (auto simp: dr split: if_splits)
    show ?thesis
    proof (cases r)
      case None
      have "parse_args p args value (i + 1) h' = resolve_all p (drop (i + 1) steps) h'"
        using 1(1) [OF True ph [symmetric] _ len nth] None by simp
      then show ?thesis
        using True ph None step by (simp add: parse_args.simps [of p args "value" i h])
    next
      case (Some e)
      then show ?thesis
        using True ph step by (simp add: parse_args.simps [of p args "value" i h])
    qed
  qed
qed

lemma parse_args_from:
  assumes "args \<noteq> []"
  shows "parse_args p args value 0 h =
     resolve_all p (map (\<lambda>c. (c, False, [])) (butlast args) @ [(last args, True, value)]) h"
proof -
  let ?steps = "map (\<lambda>c. (c, False, [])) (butlast args) @ [(last args, True, value)]"
  have len: "length ?steps = length args"
    using assms by simp
  have nth: "?steps ! i = (if i \<noteq> length args - 1 then (args ! i, False, []) else (args ! i, True, value))"
    if "i < length args" for i
    using that assms by (auto simp: nth_append nth_butlast last_conv_nth)
  show ?thesis
    using parse_args_drop [of ?steps args "value" p 0 h, OF len nth] by simp
qed

lemma parse_each_resolve_all:
  "parse_each p str h = resolve_all p (map (\<lambda>c. (c, False, [])) str) h"
  by (induction str arbitrary: h) (auto split: prod.split option.split)

lemma parseShortName_steps:
  "parseShortName p str h = resolve_all p (cluster_steps str) h"
proof (cases "str_find CHR ''='' str")
  case None
  then have nm: "CHR ''='' \<notin> set str"
    by (simp add: str_find_None)
  show ?thesis
    using nm by (simp add: parseShortName_def None cluster_steps_def parse_each_resolve_all)
next
  case (Some idx)
  then have mem: "CHR ''='' \<in> set str"
    using str_find_None [of "CHR ''=''" str] by auto
  let ?names = "takeWhile (\<lambda>c. c \<noteq> CHR ''='') str"
  let ?val = "tl (dropWhile (\<lambda>c. c \<noteq> CHR ''='') str)"
  have ps: "parseShortName p str h = parse_args p ?names ?val 0 h"
    using Some substr_split [OF Some] by (simp add: parseShortName_def)
  show ?thesis
  proof (cases "?names = []")
    case True
    then show ?thesis
      using ps mem by (simp add: cluster_steps_def parse_args.simps [of p "[]"])
  next
    case False
    then show ?thesis
      using ps mem parse_args_from [OF False, of p ?val h]
      by (simp add: cluster_steps_def Let_def)
  qed
qed

lemma cluster_steps_plain:
  "CHR ''='' \<notin> set str \<Longrightarrow> cluster_steps str = map (\<lambda>c. (c, False, [])) str"
  by (simp add: cluster_steps_def)

lemma cluster_steps_value:
  assumes "CHR ''='' \<notin> set names" "c \<noteq> CHR ''=''"
  shows "cluster_steps (names @ c # CHR ''='' # value) =
     map (\<lambda>x. (x, False, [])) names @ [(c, True, value)]"
proof -
  have tw: "takeWhile (\<lambda>x. x \<noteq> CHR ''='') ((names @ [c]) @ CHR ''='' # value) = names @ [c]"
    using assms by (intro takeWhile_append2 [THEN trans]) auto
  have dw: "dropWhile (\<lambda>x. x \<noteq> CHR ''='') ((names @ [c]) @ CHR ''='' # value) = CHR ''='' # value"
    using assms by (intro dropWhile_append2 [THEN trans]) auto
  show ?thesis
    using tw dw by (simp add: cluster_steps_def)
qed

lemma resolve_returns:
  assumes "defaultHandler isValPresent value (setPresent (h a)) = (None, opt)"
  shows "resolve a key isValPresent value h = (None, h(a := opt))"
  using assms by (simp add: resolve_def)

lemma resolve_BoolOpt:
  assumes "kind (h a) = BoolOpt b f" "call_userHandler f True = None"
  shows "resolve a key False value h = (None, h(a := (h a)\<lparr>present := True, kind := BoolOpt True f\<rparr>))"
  using assms
  by (intro resolve_returns) (simp add: defaultHandler_def BoolOpt_defaultHandler_def setPresent_def)

lemma resolve_IntOpt:
  assumes "kind (h a) = IntOpt v f" "stoll value = Inr w" "call_userHandler f w = None"
  shows "resolve a key True value h = (None, h(a := (h a)\<lparr>present := True, kind := IntOpt w f\<rparr>))"
  using assms
  by (intro resolve_returns) (simp add: defaultHandler_def IntOpt_defaultHandler_def setPresent_def)

lemma stoll_100: "stoll ''100'' = Inr 100"
  by (simp add: stoll_def scan_number_def isspace_def isdigit_def digits_value_def
      digit_value_def)

lemma parse_loop_short:
  assumes "c \<noteq> CHR ''-''"
  shows "parse_loop ((CHR ''-'' # c # str) # rest) (p, h) =
     (case parseShortName p (c # str) h of
        (Some e, h') \<Rightarrow> (Some e, p, h')
      | (None, h') \<Rightarrow> parse_loop rest (p, h'))"
  using assms by simp

lemma parse_loop_long:
  assumes "str \<noteq> []"
  shows "parse_loop ((CHR ''-'' # CHR ''-'' # str) # rest) (p, h) =
     (case parseLongName p str h of
        (Some e, h') \<Rightarrow> (Some e, p, h')
      | (None, h') \<Rightarrow> parse_loop rest (p, h'))"
  using assms by simp

text \<open>
  C1. A cluster without \<open>=\<close> resolves each of its characters as a flag without value,
  from left to right. In a cluster with \<open>=\<close>, every character before the \<open>=\<close> but
  the last is resolved as a flag without value, and the last one with the text after
  the \<open>=\<close> as its value; a failure ends the resolutions. Parsing \<^verbatim>\<open>-ij=100\<close>
  against a boolean \<open>i\<close> and a signed-integer \<open>j\<close>, whose user handlers return,
  makes \<open>i\<close> present and true and \<open>j\<close> present with the value 100, and leaves every
  other descriptor as it was.
\<close>

theorem parseShortName_cluster:
  "(CHR ''='' \<notin> set str \<longrightarrow>
      parseShortName p str h = resolve_all p (map (\<lambda>c. (c, False, [])) str) h)
   \<and> (CHR ''='' \<notin> set names \<and> c \<noteq> CHR ''='' \<longrightarrow>
      parseShortName p (names @ c # CHR ''='' # value) h =
        resolve_all p (map (\<lambda>x. (x, False, [])) names @ [(c, True, value)]) h)
   \<and> (findArgByShortName p h CHR ''i'' = Some a \<and> kind (h a) = BoolOpt b fb
       \<and> call_userHandler fb True = None
       \<and> findArgByShortName p h CHR ''j'' = Some a' \<and> kind (h a') = IntOpt v fj
       \<and> call_userHandler fj 100 = None \<longrightarrow>
      parse [argv0, ''-ij=100''] (p, h) =
        (None, p, h(a := (h a)\<lparr>present := True, kind := BoolOpt True fb\<rparr>,
                    a' := (h a')\<lparr>present := True, kind := IntOpt 100 fj\<rparr>)))"
proof (intro conjI impI)
  assume "CHR ''='' \<notin> set str"
  then show "parseShortName p str h = resolve_all p (map (\<lambda>c. (c, False, [])) str) h"
    by (simp add: parseShortName_steps cluster_steps_plain)
next
  assume "CHR ''='' \<notin> set names \<and> c \<noteq> CHR ''=''"
  then show "parseShortName p (names @ c # CHR ''='' # value) h =
      resolve_all p (map (\<lambda>x. (x, False, [])) names @ [(c, True, value)]) h"
    by (simp add: parseShortName_steps cluster_steps_value)
next
  assume A: "findArgByShortName p h CHR ''i'' = Some a \<and> kind (h a) = BoolOpt b fb
       \<and> call_userHandler fb True = None
       \<and> findArgByShortName p h CHR ''j'' = Some a' \<and> kind (h a') = IntOpt v fj
       \<and> call_userHandler fj 100 = None"
  define h1 where "h1 = h(a := (h a)\<lparr>present := True, kind := BoolOpt True fb\<rparr>)"
  have ne: "a' \<noteq> a"
    using A by auto
  have i: "parse_char p CHR ''i'' False [] h = (None, h1)"
    using A by (simp add: parse_char_def resolve_BoolOpt h1_def)
  have "findArgByShortName p h1 CHR ''j'' = findArgByShortName p h CHR ''j''"
    by (rule findArgByShortName_cong) (simp add: h1_def)
  moreover have "kind (h1 a') = IntOpt v fj" and "h1 a' = h a'"
    using A ne by (simp_all add: h1_def)
  ultimately have j: "parse_char p CHR ''j'' True ''100'' h1 =
      (None, h1(a' := (h a')\<lparr>present := True, kind := IntOpt 100 fj\<rparr>))"
    using A resolve_IntOpt [of h1 a' v fj "''100''" 100 "''j''"]
    by (simp add: parse_char_def stoll_100)
  have st: "cluster_steps ''ij=100'' = [(CHR ''i'', False, []), (CHR ''j'', True, ''100'')]"
    using cluster_steps_value [of "''i''" "CHR ''j''" "''100''"] by simp
  have "parseShortName p ''ij=100'' h =
      (None, h1(a' := (h a')\<lparr>present := True, kind := IntOpt 100 fj\<rparr>))"
    by (simp add: parseShortName_steps st i j)
  then show "parse [argv0, ''-ij=100''] (p, h) =
        (None, p, h(a := (h a)\<lparr>present := True, kind := BoolOpt True fb\<rparr>,
                    a' := (h a')\<lparr>present := True, kind := IntOpt 100 fj\<rparr>))"
    by (simp add: parse_def h1_def)
qed

theorem parseShortName_cluster_witness:
  "CHR ''='' \<notin> set ''il''
   \<and> parseShortName test_parser ''il'' test_store =
       resolve_all test_parser [(CHR ''i'', False, []), (CHR ''l'', False, [])] test_store
   \<and> CHR ''='' \<notin> set ''i'' \<and> CHR ''j'' \<noteq> CHR ''=''
   \<and> parseShortName test_parser ''ij=100'' test_store =
       resolve_all test_parser [(CHR ''i'', False, []), (CHR ''j'', True, ''100'')] test_store
   \<and> findArgByShortName test_parser test_store CHR ''i'' = Some 0
   \<and> kind (test_store 0) = BoolOpt False None
   \<and> findArgByShortName test_parser test_store CHR ''j'' = Some 1
   \<and> kind (test_store 1) = IntOpt 1100 None
   \<and> (case parse [''zeta'', ''-ij=100''] (test_parser, test_store) of
        (r, p, h) \<Rightarrow>
          r = None \<and> present (h 0) \<and> kind (h 0) = BoolOpt True None
          \<and> present (h 1) \<and> kind (h 1) = IntOpt 100 None
          \<and> \<not> present (h 2) \<and> \<not> present (h 3))"
proof -
  have fi: "findArgByShortName test_parser test_store CHR ''i'' = Some 0"
    and fj: "findArgByShortName test_parser test_store CHR ''j'' = Some 1"
    by (simp_all add: findArgByShortName_def test_parser_def add_def new_OptParser_def
        test_store_def)
  have ki: "kind (test_store 0) = BoolOpt False None"
    and kj: "kind (test_store 1) = IntOpt 1100 None"
    and rest: "\<not> present (test_store 2)" "\<not> present (test_store 3)"
    by (simp_all add: test_store_def)
  show ?thesis
    using parseShortName_cluster [of "''il''" test_parser test_store "''i''" "CHR ''j''" "''100''"
        0 False None 1 1100 None "''zeta''"] fi fj ki kj rest
    by (simp add: call_userHandler_def)
qed

subsection \<open>Long names\<close>

lemma resolve_rethrow:
  assumes "defaultHandler isValPresent value (setPresent (h a)) = (Some (ParseException msg), opt)"
  shows "resolve a key isValPresent value h =
     (Some (ParseException (''Parsing of '' @ key @ '' failed: '' @ msg)), h(a := opt))"
  using assms by (simp add: resolve_def)

lemma parseLongName_plain:
  "CHR ''='' \<notin> set str \<Longrightarrow> parseLongName p str h = parse_string p str False [] h"
  by (simp add: parseLongName_def str_find_None [THEN iffD2])

lemma parseLongName_value:
  assumes "CHR ''='' \<notin> set name"
  shows "parseLongName p (name @ CHR ''='' # value) h = parse_string p name True value h"
  using str_find_append [OF assms, of "value"]
  by (simp add: parseLongName_def substr_def)

lemma resolve_StrOpt:
  assumes "kind (h a) = StrOpt pv f"
  shows "snd (resolve a key True v h) = h(a := (h a)\<lparr>present := True, kind := StrOpt v f\<rparr>)"
    and "call_userHandler f v = None \<Longrightarrow> fst (resolve a key True v h) = None"
proof -
  have d: "defaultHandler True v (setPresent (h a)) =
      (call_userHandler f v, (h a)\<lparr>present := True, kind := StrOpt v f\<rparr>)"
    using assms by (simp add: defaultHandler_def StrOpt_defaultHandler_def setPresent_def)
  show "snd (resolve a key True v h) = h(a := (h a)\<lparr>present := True, kind := StrOpt v f\<rparr>)"
    by (simp add: resolve_store d)
  show "fst (resolve a key True v h) = None" if "call_userHandler f v = None"
    using that d by (simp add: resolve_def)
qed

text \<open>
  C8. The text of a long-option token after \<^verbatim>\<open>--\<close> is split at its first \<open>=\<close>.
  Without \<open>=\<close> the whole text is the name and no value is passed. With \<open>=\<close> the
  name is the text before the first \<open>=\<close> and the value is all the text after it, be
  it empty or with more \<open>=\<close> in it. A string option stores that value as it is:
  \<^verbatim>\<open>--ls=some other value\<close> stores \<^verbatim>\<open>some other value\<close>.
\<close>

theorem parseLongName_split:
  "(CHR ''='' \<notin> set str \<longrightarrow> parseLongName p str h = parse_string p str False [] h)
   \<and> (CHR ''='' \<notin> set name \<longrightarrow>
        parseLongName p (name @ CHR ''='' # value) h = parse_string p name True value h)
   \<and> (CHR ''='' \<notin> set name \<and> findArgByLongName p h name = Some a \<and> kind (h a) = StrOpt pv f \<longrightarrow>
        snd (parseLongName p (name @ CHR ''='' # value) h) =
          h(a := (h a)\<lparr>present := True, kind := StrOpt value f\<rparr>))
   \<and> (findArgByLongName p h ''ls'' = Some a \<and> kind (h a) = StrOpt pv f
       \<and> call_userHandler f ''some other value'' = None \<longrightarrow>
        parse [argv0, ''--ls=some other value''] (p, h) =
          (None, p, h(a := (h a)\<lparr>present := True, kind := StrOpt ''some other value'' f\<rparr>)))"
proof (intro conjI impI)
  assume "CHR ''='' \<notin> set str"
  then show "parseLongName p str h = parse_string p str False [] h"
    by (rule parseLongName_plain)
next
  assume "CHR ''='' \<notin> set name"
  then show "parseLongName p (name @ CHR ''='' # value) h = parse_string p name True value h"
    by (rule parseLongName_value)
next
  assume "CHR ''='' \<notin> set name \<and> findArgByLongName p h name = Some a \<and> kind (h a) = StrOpt pv f"
  then show "snd (parseLongName p (name @ CHR ''='' # value) h) =
      h(a := (h a)\<lparr>present := True, kind := StrOpt value f\<rparr>)"
    by (simp add: parseLongName_value parse_string_def resolve_StrOpt(1))
next
  assume A: "findArgByLongName p h ''ls'' = Some a \<and> kind (h a) = StrOpt pv f
       \<and> call_userHandler f ''some other value'' = None"
  have "parseLongName p (''ls'' @ CHR ''='' # ''some other value'') h =
      parse_string p ''ls'' True ''some other value'' h"
    by (rule parseLongName_value) simp
  moreover have "parse_string p ''ls'' True ''some other value'' h =
      (None, h(a := (h a)\<lparr>present := True, kind := StrOpt ''some other value'' f\<rparr>))"
    using A resolve_StrOpt [where h = h and a = a and pv = pv and f = f and key = "''ls''"
        and v = "''some other value''"]
    by (simp add: parse_string_def prod_eq_iff)
  ultimately show "parse [argv0, ''--ls=some other value''] (p, h) =
      (None, p, h(a := (h a)\<lparr>present := True, kind := StrOpt ''some other value'' f\<rparr>))"
    by (simp add: parse_def)
qed

theorem parseLongName_split_witness:
  "CHR ''='' \<notin> set ''is''
   \<and> parseLongName test_parser ''is'' test_store = parse_string test_parser ''is'' False [] test_store
   \<and> CHR ''='' \<notin> set ''ls''
   \<and> parseLongName test_parser ''ls=a=b'' test_store = parse_string test_parser ''ls'' True ''a=b'' test_store
   \<and> parseLongName test_parser ''ls='' test_store = parse_string test_parser ''ls'' True [] test_store
   \<and> findArgByLongName test_parser test_store ''ls'' = Some 3
   \<and> kind (test_store 3) = StrOpt ''Blah'' None
   \<and> snd (parseLongName test_parser ''ls=a=b'' test_store) 3 =
        (test_store 3)\<lparr>present := True, kind := StrOpt ''a=b'' None\<rparr>
   \<and> fst (parse [''zeta'', ''--ls=some other value''] (test_parser, test_store)) = None
   \<and> snd (snd (parse [''zeta'', ''--ls=some other value''] (test_parser, test_store))) 3 =
        (test_store 3)\<lparr>present := True, kind := StrOpt ''some other value'' None\<rparr>"
proof -
  have fl: "findArgByLongName test_parser test_store ''ls'' = Some 3"
    by (simp add: findArgByLongName_def test_parser_def add_def new_OptParser_def test_store_def)
  have kl: "kind (test_store 3) = StrOpt ''Blah'' None"
    by (simp add: test_store_def)
  note t1 = parseLongName_split [of "''is''" test_parser test_store "''ls''" "''a=b''" 3
      "''Blah''" None "''zeta''"]
  note t2 = parseLongName_split [of "''is''" test_parser test_store "''ls''" "[]" 3
      "''Blah''" None "''zeta''"]
  have s1: "snd (parseLongName test_parser ''ls=a=b'' test_store) =
      test_store(3 := (test_store 3)\<lparr>present := True, kind := StrOpt ''a=b'' None\<rparr>)"
    using t1 [THEN conjunct2, THEN conjunct2, THEN conjunct1] fl kl by simp
  have s2: "parse [''zeta'', ''--ls=some other value''] (test_parser, test_store) =
      (None, test_parser,
       test_store(3 := (test_store 3)\<lparr>present := True, kind := StrOpt ''some other value'' None\<rparr>))"
    using t1 [THEN conjunct2, THEN conjunct2, THEN conjunct2] fl kl
    by (simp add: call_userHandler_def)
  have s3: "parseLongName test_parser ''is'' test_store = parse_string test_parser ''is'' False [] test_store"
    "parseLongName test_parser ''ls=a=b'' test_store = parse_string test_parser ''ls'' True ''a=b'' test_store"
    "parseLongName test_parser ''ls='' test_store = parse_string test_parser ''ls'' True [] test_store"
    using t1 [THEN conjunct1] t1 [THEN conjunct2, THEN conjunct1]
      t2 [THEN conjunct2, THEN conjunct1] by simp_all
  show ?thesis
    by (simp add: s1 s2 fl kl) (simp add: s3)
qed

subsection \<open>Names without descriptor\<close>

lemma cluster_steps_head:
  assumes "c \<noteq> CHR ''=''"
  shows "\<exists>isValPresent value rest. cluster_steps (c # str) = (c, isValPresent, value) # rest"
proof (cases "CHR ''='' \<in> set str")
  case False
  then have "cluster_steps (c # str) = (c, False, []) # map (\<lambda>c. (c, False, [])) str"
    using assms by (simp add: cluster_steps_def)
  then show ?thesis by blast
next
  case True
  let ?names = "takeWhile (\<lambda>x. x \<noteq> CHR ''='') str"
  let ?val = "tl (dropWhile (\<lambda>x. x \<noteq> CHR ''='') str)"
  show ?thesis
  proof (cases "?names = []")
    case e: True
    then have "cluster_steps (c # str) = (c, True, ?val) # []"
      using assms True by (simp add: cluster_steps_def)
    then show ?thesis by blast
  next
    case ne: False
    then have "cluster_steps (c # str) =
        (c, False, []) # (map (\<lambda>c. (c, False, [])) (butlast ?names) @ [(last ?names, True, ?val)])"
      using assms True by (simp add: cluster_steps_def)
    then show ?thesis by blast
  qed
qed

lemma parse_char_unknown:
  "findArgByShortName p h c = None \<Longrightarrow>
     parse_char p c isValPresent value h = (Some (ParseException (''No such option '' @ [c])), h)"
  by (simp add: parse_char_def)


lemma parseLongName_name:
  "\<exists>isValPresent value.
     parseLongName p str h =
       parse_string p (takeWhile (\<lambda>x. x \<noteq> CHR ''='') str) isValPresent value h"
proof (cases "str_find CHR ''='' str")
  case None
  then have "CHR ''='' \<notin> set str"
    by (simp add: str_find_None)
  then have tw: "takeWhile (\<lambda>x. x \<noteq> CHR ''='') str = str"
    by (intro takeWhile_eq_all_conv [THEN iffD2]) auto
  have "parseLongName p str h = parse_string p str False [] h"
    by (simp add: parseLongName_def None)
  then have "parseLongName p str h =
      parse_string p (takeWhile (\<lambda>x. x \<noteq> CHR ''='') str) False [] h"
    by (simp only: tw)
  then show ?thesis by blast
next
  case (Some idx)
  have "parseLongName p str h =
      parse_string p (takeWhile (\<lambda>x. x \<noteq> CHR ''='') str) True
        (tl (dropWhile (\<lambda>x. x \<noteq> CHR ''='') str)) h"
    using substr_split [OF Some] by (simp add: parseLongName_def Some)
  then show ?thesis by blast
qed




subsection \<open>Presence and failed coercions\<close>

lemma resolve_outcome:
  "fst (resolve a key isValPresent value h) =
     (case fst (defaultHandler isValPresent value (setPresent (h a))) of
        Some (ParseException msg) \<Rightarrow>
          Some (ParseException (''Parsing of '' @ key @ '' failed: '' @ msg))
      | r \<Rightarrow> r)"
  by (simp add: resolve_def Let_def split: prod.split option.split exn.split)

lemma resolve_fails:
  "fst (defaultHandler isValPresent value (setPresent (h a))) \<noteq> None \<Longrightarrow>
     fst (resolve a key isValPresent value h) \<noteq> None"
  by (auto simp: resolve_outcome split: option.split exn.split)

lemma IntOpt_stoll_fails:
  assumes "kind opt = IntOpt pv f" "stoll v = Inl e"
  shows "defaultHandler True v opt = (Some (IntOpt_catch e), opt)"
  using assms by (simp add: defaultHandler_def IntOpt_defaultHandler_def)

lemma cluster_steps_single:
  "c \<noteq> CHR ''='' \<Longrightarrow> cluster_steps (c # CHR ''='' # v) = [(c, True, v)]"
  using cluster_steps_value [of "[]" c v] by simp

lemma parse_single_short_value:
  assumes "c \<noteq> CHR ''-''" "c \<noteq> CHR ''=''"
    and "parse_char p c True v h = (Some e, h')"
  shows "parse (argv0 # (CHR ''-'' # c # CHR ''='' # v) # rest) (p, h) = (Some e, p, h')"
  using assms
  by (simp add: parse_def parse_loop_short parseShortName_steps cluster_steps_single)

lemma test_find:
  "findArgByShortName test_parser test_store CHR ''i'' = Some 0"
  "findArgByShortName test_parser test_store CHR ''j'' = Some 1"
  "findArgByShortName test_parser test_store CHR ''l'' = Some 3"
  "findArgByShortName test_parser test_store CHR ''x'' = None"
  "findArgByLongName test_parser test_store ''is'' = Some 0"
  "findArgByLongName test_parser test_store ''js'' = Some 1"
  "findArgByLongName test_parser test_store ''ks'' = Some 2"
  "findArgByLongName test_parser test_store ''ls'' = Some 3"
  by (simp_all add: findArgByShortName_def findArgByLongName_def test_parser_def add_def
      new_OptParser_def test_store_def)

lemma test_kind:
  "kind (test_store 0) = BoolOpt False None"
  "kind (test_store 1) = IntOpt 1100 None"
  "kind (test_store 2) = UintOpt 2200 None"
  "kind (test_store 3) = StrOpt ''Blah'' None"
  "\<not> present (test_store 0)" "\<not> present (test_store 1)"
  "\<not> present (test_store 2)" "\<not> present (test_store 3)"
  by (simp_all add: test_store_def)

lemma stoll_abc: "stoll ''abc'' = Inl (invalid_argument ''stoll'')"
  by (simp add: stoll_def scan_number_def isspace_def isdigit_def)

subsection \<open>Failures of user handlers\<close>

lemma stoll_2000: "stoll ''2000'' = Inr 2000"
  by (simp add: stoll_def scan_number_def isspace_def isdigit_def digits_value_def
      digit_value_def)

lemma stoull_5: "stoull ''5'' = Inr 5"
  by (simp add: stoull_def scan_number_def isspace_def isdigit_def digits_value_def
      digit_value_def)

lemma customChecker_2000: "customChecker 2000 = Some (ParseException ''Value is more that 1000'')"
  by (simp add: customChecker_def)

lemma test0_find:
  "findArgByShortName test_parser test_store0 CHR ''j'' = Some 1"
  "findArgByLongName test_parser test_store0 ''js'' = Some 1"
  "kind (test_store0 1) = IntOpt 1100 (Some customChecker)"
  by (simp_all add: findArgByShortName_def findArgByLongName_def test_parser_def add_def
      new_OptParser_def test_store0_def test_store_def)

lemma test0_coercion:
  "defaultHandler True ''2000'' (setPresent (test_store0 1)) =
     (Some (ParseException ''Value is more that 1000''),
      (test_store0 1)\<lparr>present := True, kind := IntOpt 2000 (Some customChecker)\<rparr>)"
  using test0_find(3)
  by (simp add: defaultHandler_def IntOpt_defaultHandler_def setPresent_def
      stoll_2000 call_userHandler_def customChecker_2000 IntOpt_catch_def)

text \<open>
  C9, as stated, fails: with \<^verbatim>\<open>customChecker\<close> of \<^verbatim>\<open>testOptParser0\<close> as the user
  handler of \<^verbatim>\<open>js\<close>, the handler throws \<^verbatim>\<open>Value is more that 1000\<close> on
  \<^verbatim>\<open>-j=2000\<close>, and the caller of \<^verbatim>\<open>parse\<close> sees
  \<^verbatim>\<open>Parsing of j failed: Value is more that 1000\<close>.
\<close>

theorem callback_failure_counterexample:
  "customChecker 2000 = Some (ParseException ''Value is more that 1000'')
   \<and> fst (parse [''zeta'', ''-j=2000''] (test_parser, test_store0)) =
       Some (ParseException ''Parsing of j failed: Value is more that 1000'')
   \<and> fst (parse [''zeta'', ''-j=2000''] (test_parser, test_store0)) \<noteq>
       Some (ParseException ''Value is more that 1000'')"
proof -
  have "parse_char test_parser CHR ''j'' True ''2000'' test_store0 =
      (Some (ParseException ''Parsing of j failed: Value is more that 1000''),
       test_store0(1 := (test_store0 1)\<lparr>present := True, kind := IntOpt 2000 (Some customChecker)\<rparr>))"
    using resolve_rethrow [where h = test_store0 and a = 1 and key = "''j''", OF test0_coercion]
      test0_find(1)
    by (simp add: parse_char_def)
  then have "fst (parse [''zeta'', ''-j=2000''] (test_parser, test_store0)) =
      Some (ParseException ''Parsing of j failed: Value is more that 1000'')"
    using parse_single_short_value [of "CHR ''j''" test_parser "''2000''" test_store0 _ _ "''zeta''" "[]"]
    by simp
  then show ?thesis
    by (simp add: customChecker_2000)
qed

subsection \<open>The scan of the argument vector\<close>

lemma parse_loop_Cons:
  assumes "current \<noteq> ''--''"
  shows "parse_loop (current # rest) (p, h) =
     (case parse_loop [current] (p, h) of
        (Some e, s') \<Rightarrow> (Some e, s')
      | (None, s') \<Rightarrow> parse_loop rest s')"
  using assms
  by (simp split: prod.split option.split)

lemma parse_loop_terminator:
  "parse_loop (''--'' # post) (p, h) =
     (if programName p = []
      then (Some (ParseException ''Program filename must be specified before arguments''), p, h)
      else (None, p\<lparr>programArgc := int (length post), programArgv := Some post\<rparr>, h))"
  by simp

lemma resolve_inv:
  assumes sp: "\<And>opt. Q opt \<Longrightarrow> Q (setPresent opt)"
    and dh: "\<And>isPresent value opt. Q opt \<Longrightarrow> Q (snd (defaultHandler isPresent value opt))"
    and q: "Q (h b)"
  shows "Q (snd (resolve a key isValPresent value h) b)"
proof (cases "b = a")
  case True
  have "Q (snd (defaultHandler isValPresent value (setPresent (h a))))"
    using q True by (intro dh sp) simp
  then show ?thesis
    using True by (simp add: resolve_store)
next
  case False
  then show ?thesis
    using q by (simp add: resolve_store)
qed

lemma parse_char_inv:
  assumes sp: "\<And>opt. Q opt \<Longrightarrow> Q (setPresent opt)"
    and dh: "\<And>isPresent value opt. Q opt \<Longrightarrow> Q (snd (defaultHandler isPresent value opt))"
    and q: "Q (h b)"
  shows "Q (snd (parse_char p key isValPresent value h) b)"
  using resolve_inv [of Q h b, OF sp dh q] q
  by (simp add: parse_char_def split: option.split)

lemma parse_string_inv:
  assumes sp: "\<And>opt. Q opt \<Longrightarrow> Q (setPresent opt)"
    and dh: "\<And>isPresent value opt. Q opt \<Longrightarrow> Q (snd (defaultHandler isPresent value opt))"
    and q: "Q (h b)"
  shows "Q (snd (parse_string p key isValPresent value h) b)"
  using resolve_inv [of Q h b, OF sp dh q] q
  by (simp add: parse_string_def split: option.split)

lemma resolve_all_inv:
  assumes sp: "\<And>opt. Q opt \<Longrightarrow> Q (setPresent opt)"
    and dh: "\<And>isPresent value opt. Q opt \<Longrightarrow> Q (snd (defaultHandler isPresent value opt))"
  shows "Q (h b) \<Longrightarrow> Q (snd (resolve_all p steps h) b)"
proof (induction steps arbitrary: h)
  case Nil
  then show ?case by simp
next
  case (Cons step steps)
  obtain c ivp v where step: "step = (c, ivp, v)"
    by (cases step)
  obtain r h' where pc: "parse_char p c ivp v h = (r, h')"
    by (cases "parse_char p c ivp v h")
  have q': "Q (h' b)"
    using parse_char_inv [of Q h b p c ivp v, OF sp dh Cons.prems] pc by simp
  show ?case
    using Cons.IH [of h'] q' pc by (cases r) (simp_all add: step)
qed

lemma parseShortName_inv:
  assumes sp: "\<And>opt. Q opt \<Longrightarrow> Q (setPresent opt)"
    and dh: "\<And>isPresent value opt. Q opt \<Longrightarrow> Q (snd (defaultHandler isPresent value opt))"
    and q: "Q (h b)"
  shows "Q (snd (parseShortName p str h) b)"
  using resolve_all_inv [of Q h b, OF sp dh q] by (simp add: parseShortName_steps)

lemma parseLongName_inv:
  assumes sp: "\<And>opt. Q opt \<Longrightarrow> Q (setPresent opt)"
    and dh: "\<And>isPresent value opt. Q opt \<Longrightarrow> Q (snd (defaultHandler isPresent value opt))"
    and q: "Q (h b)"
  shows "Q (snd (parseLongName p str h) b)"
proof -
  obtain ivp v where "parseLongName p str h =
      parse_string p (takeWhile (\<lambda>x. x \<noteq> CHR ''='') str) ivp v h"
    using parseLongName_name by blast
  then show ?thesis
    using parse_string_inv [of Q h b, OF sp dh q] by simp
qed

lemma parse_loop_single_inv:
  assumes sp: "\<And>opt. Q opt \<Longrightarrow> Q (setPresent opt)"
    and dh: "\<And>isPresent value opt. Q opt \<Longrightarrow> Q (snd (defaultHandler isPresent value opt))"
    and q: "Q (h b)"
  shows "Q (snd (snd (parse_loop [t] (p, h))) b)"
proof -
  have l: "Q (snd (parseLongName p (drop 2 t) h) b)"
    and s: "Q (snd (parseShortName p (drop 1 t) h) b)"
    using parseLongName_inv [of Q h b, OF sp dh q] parseShortName_inv [of Q h b, OF sp dh q]
    by simp_all
  obtain rl hl where el: "parseLongName p (drop 2 t) h = (rl, hl)"
    by (cases "parseLongName p (drop 2 t) h")
  obtain rs hs where es: "parseShortName p (drop 1 t) h = (rs, hs)"
    by (cases "parseShortName p (drop 1 t) h")
  obtain rp pp where ep: "parseProgramName t p = (rp, pp)"
    by (cases "parseProgramName t p")
  show ?thesis
    using q l s el es ep by (cases rl; cases rs; cases rp) simp_all
qed

lemma parse_loop_inv:
  assumes sp: "\<And>opt. Q opt \<Longrightarrow> Q (setPresent opt)"
    and dh: "\<And>isPresent value opt. Q opt \<Longrightarrow> Q (snd (defaultHandler isPresent value opt))"
  shows "Q (h b) \<Longrightarrow> Q (snd (snd (parse_loop ts (p, h))) b)"
proof (induction ts arbitrary: p h)
  case Nil
  then show ?case by simp
next
  case (Cons t ts)
  show ?case
  proof (cases "t = ''--''")
    case True
    then show ?thesis
      using Cons.prems by (simp only: parse_loop_terminator split: if_split) simp
  next
    case False
    obtain r p' h' where one: "parse_loop [t] (p, h) = (r, p', h')"
      by (cases "parse_loop [t] (p, h)")
    have q': "Q (h' b)"
      using parse_loop_single_inv [of Q h b t p, OF sp dh Cons.prems] one by simp
    have step: "parse_loop (t # ts) (p, h) =
        (case r of Some e \<Rightarrow> (Some e, p', h') | None \<Rightarrow> parse_loop ts (p', h'))"
      by (subst parse_loop_Cons [OF False]) (simp only: one prod.case)
    show ?thesis
      using Cons.IH [of h' p'] q' by (cases r) (simp_all only: step option.case snd_conv)
  qed
qed

lemma present_kept:
  "present opt \<Longrightarrow> present (setPresent opt)"
  "present opt \<Longrightarrow> present (snd (defaultHandler isPresent value opt))"
  by (simp_all add: setPresent_def defaultHandler_fields)

lemma bool_kept:
  assumes "kind opt = BoolOpt b f \<or> kind opt = BoolOpt True f"
  shows "kind (setPresent opt) = BoolOpt b f \<or> kind (setPresent opt) = BoolOpt True f"
    and "kind (snd (defaultHandler isPresent value opt)) = BoolOpt b f
      \<or> kind (snd (defaultHandler isPresent value opt)) = BoolOpt True f"
  using assms
  by (auto simp: setPresent_def defaultHandler_def BoolOpt_defaultHandler_def
      split: if_splits prod.splits)

lemma parse_loop_append:
  assumes "''--'' \<notin> set pre"
  shows "parse_loop (pre @ rest) s =
     (case parse_loop pre s of
        (Some e, s') \<Rightarrow> (Some e, s')
      | (None, s') \<Rightarrow> parse_loop rest s')"
  using assms
proof (induction pre arbitrary: s)
  case Nil
  show ?case by (cases s) simp
next
  case (Cons t pre)
  obtain p h where s: "s = (p, h)" by (cases s)
  have t: "t \<noteq> ''--''" using Cons.prems by auto
  obtain r s1 where one: "parse_loop [t] (p, h) = (r, s1)"
    by (cases "parse_loop [t] (p, h)")
  show ?case
  proof (cases r)
    case None
    have "parse_loop ((t # pre) @ rest) s = parse_loop (pre @ rest) s1"
      using parse_loop_Cons [OF t, of "pre @ rest" p h] one None by (simp add: s)
    moreover have "parse_loop (t # pre) s = parse_loop pre s1"
      using parse_loop_Cons [OF t, of pre p h] one None by (simp add: s)
    ultimately show ?thesis
      using Cons.IH [of s1] Cons.prems by simp
  next
    case (Some e)
    have "parse_loop ((t # pre) @ rest) s = (Some e, s1)"
      using parse_loop_Cons [OF t, of "pre @ rest" p h] one Some by (simp add: s)
    moreover have "parse_loop (t # pre) s = (Some e, s1)"
      using parse_loop_Cons [OF t, of pre p h] one Some by (simp add: s)
    ultimately show ?thesis by simp
  qed
qed

lemma test_parser_fields:
  "programName test_parser = []" "argOptions test_parser = [0, 1, 2, 3]"
  by (simp_all add: test_parser_def add_def new_OptParser_def)

lemma test_long_is:
  assumes "argOptions p = argOptions test_parser"
  shows "parse_loop [''--is''] (p, test_store) =
     (None, p, test_store(0 := (test_store 0)\<lparr>present := True, kind := BoolOpt True None\<rparr>))"
proof -
  have f: "findArgByLongName p test_store ''is'' = Some 0"
    using assms test_find(5) by (simp add: findArgByLongName_def)
  have "parse_string p ''is'' False [] test_store =
      (None, test_store(0 := (test_store 0)\<lparr>present := True, kind := BoolOpt True None\<rparr>))"
    using f resolve_BoolOpt [of test_store 0 False None "''is''" "[]"] test_kind(1)
    by (simp add: parse_string_def call_userHandler_def)
  then show ?thesis
    by (simp add: parseLongName_plain)
qed

lemma parse_loop_unknown_short:
  assumes "c \<noteq> CHR ''-''" "c \<noteq> CHR ''=''" "findArgByShortName p h c = None"
  shows "parse_loop ((CHR ''-'' # c # names) # rest) (p, h) =
     (Some (ParseException (''No such option '' @ [c])), p, h)"
proof -
  obtain ivp v steps where "cluster_steps (c # names) = (c, ivp, v) # steps"
    using cluster_steps_head [OF assms(2), of names] by blast
  then have "parseShortName p (c # names) h =
      (Some (ParseException (''No such option '' @ [c])), h)"
    using assms(3) by (simp add: parseShortName_steps parse_char_unknown)
  then show ?thesis
    using assms(1) by (simp add: parse_loop_short)
qed

text \<open>
  C2. When the scan reaches the token \<^verbatim>\<open>--\<close>, the tokens before it having been
  scanned without failure: if no program name has been assigned, the parse throws
  \<^verbatim>\<open>Program filename must be specified before arguments\<close>; otherwise the tokens
  after the \<^verbatim>\<open>--\<close> are the residual arguments, unchanged and in their order, their
  number is the residual count, and the parse returns with the descriptors as they were
  when the \<^verbatim>\<open>--\<close> was reached, so none of those tokens is resolved.
\<close>

theorem terminator_captures_residual:
  "''--'' \<notin> set pre \<and> parse_loop pre (p, h) = (None, p', h') \<longrightarrow>
     parse (argv0 # pre @ ''--'' # post) (p, h) =
       (if programName p' = []
        then (Some (ParseException ''Program filename must be specified before arguments''),
              p', h')
        else (None, p'\<lparr>programArgc := int (length post), programArgv := Some post\<rparr>, h'))"
proof
  assume A: "''--'' \<notin> set pre \<and> parse_loop pre (p, h) = (None, p', h')"
  then have "parse_loop (pre @ ''--'' # post) (p, h) = parse_loop (''--'' # post) (p', h')"
    by (simp add: parse_loop_append)
  then show "parse (argv0 # pre @ ''--'' # post) (p, h) =
       (if programName p' = []
        then (Some (ParseException ''Program filename must be specified before arguments''),
              p', h')
        else (None, p'\<lparr>programArgc := int (length post), programArgv := Some post\<rparr>, h'))"
    by (simp only: parse_def drop_Suc_Cons drop_0 One_nat_def parse_loop_terminator)
qed

theorem terminator_captures_residual_witness:
  "''--'' \<notin> set [''prog'', ''--is'']
   \<and> parse_loop [''prog'', ''--is''] (test_parser, test_store) =
       (None, test_parser\<lparr>programName := ''prog''\<rparr>,
        test_store(0 := (test_store 0)\<lparr>present := True, kind := BoolOpt True None\<rparr>))
   \<and> parse [''zeta'', ''prog'', ''--is'', ''--'', ''-x=4'', ''--'', ''--ls''] (test_parser, test_store) =
       (None,
        test_parser\<lparr>programName := ''prog'', programArgc := 3,
          programArgv := Some [''-x=4'', ''--'', ''--ls'']\<rparr>,
        test_store(0 := (test_store 0)\<lparr>present := True, kind := BoolOpt True None\<rparr>))
   \<and> ''--'' \<notin> set [''--is'']
   \<and> parse_loop [''--is''] (test_parser, test_store) =
       (None, test_parser,
        test_store(0 := (test_store 0)\<lparr>present := True, kind := BoolOpt True None\<rparr>))
   \<and> parse [''zeta'', ''--is'', ''--'', ''-x=4''] (test_parser, test_store) =
       (Some (ParseException ''Program filename must be specified before arguments''),
        test_parser,
        test_store(0 := (test_store 0)\<lparr>present := True, kind := BoolOpt True None\<rparr>))"
proof -
  define h1 where "h1 = test_store(0 := (test_store 0)\<lparr>present := True, kind := BoolOpt True None\<rparr>)"
  have n1: "''--'' \<notin> set [''prog'', ''--is'']" and n2: "''--'' \<notin> set [''--is'']"
    by simp_all
  have l2: "parse_loop [''--is''] (test_parser, test_store) = (None, test_parser, h1)"
    using test_long_is [of test_parser] by (simp add: h1_def)
  have "parse_loop [''--is''] (test_parser\<lparr>programName := ''prog''\<rparr>, test_store) =
      (None, test_parser\<lparr>programName := ''prog''\<rparr>, h1)"
    using test_long_is [of "test_parser\<lparr>programName := ''prog''\<rparr>"] by (simp add: h1_def)
  then have l1: "parse_loop [''prog'', ''--is''] (test_parser, test_store) =
      (None, test_parser\<lparr>programName := ''prog''\<rparr>, h1)"
    using parse_loop_Cons [of "''prog''" "[''--is'']" test_parser test_store]
    by (simp add: parseProgramName_def test_parser_fields)
  have r1: "parse [''zeta'', ''prog'', ''--is'', ''--'', ''-x=4'', ''--'', ''--ls''] (test_parser, test_store) =
       (None,
        test_parser\<lparr>programName := ''prog'', programArgc := 3,
          programArgv := Some [''-x=4'', ''--'', ''--ls'']\<rparr>, h1)"
    using terminator_captures_residual [of "[''prog'', ''--is'']" test_parser test_store
        "test_parser\<lparr>programName := ''prog''\<rparr>" h1 "''zeta''" "[''-x=4'', ''--'', ''--ls'']"]
      n1 l1 by simp
  have r2: "parse [''zeta'', ''--is'', ''--'', ''-x=4''] (test_parser, test_store) =
       (Some (ParseException ''Program filename must be specified before arguments''),
        test_parser, h1)"
    using terminator_captures_residual [of "[''--is'']" test_parser test_store
        test_parser h1 "''zeta''" "[''-x=4'']"]
      n2 l2 by (simp add: test_parser_fields)
  show ?thesis
    using n1 n2 l1 l2 r1 r2 unfolding h1_def by blast
qed

subsection \<open>Boolean options\<close>

text \<open>
  C7. For a boolean option, the coercion throws when a value is attached, and leaves
  the descriptor as it was; without value it stores true. Resolving its name without
  value makes the option present and its value true. After any parse run, the stored
  value of a boolean option is the one it had before the run or true, whatever the
  default was.
\<close>

theorem BoolOpt_never_false:
  "(kind opt = BoolOpt b f \<longrightarrow>
      defaultHandler True value opt =
        (Some (ParseException ''Argument does not expect a value''), opt)
      \<and> defaultHandler False value opt =
        (call_userHandler f True, opt\<lparr>kind := BoolOpt True f\<rparr>))
   \<and> (kind (h a) = BoolOpt b f \<and> findArgByShortName p h c = Some a \<longrightarrow>
      snd (parse_char p c False value h) =
        h(a := (h a)\<lparr>present := True, kind := BoolOpt True f\<rparr>))
   \<and> (kind (h a) = BoolOpt b f \<and> findArgByLongName p h name = Some a \<longrightarrow>
      snd (parse_string p name False value h) =
        h(a := (h a)\<lparr>present := True, kind := BoolOpt True f\<rparr>))
   \<and> (kind (h a) = BoolOpt b f \<longrightarrow>
      kind (snd (snd (parse argv (p, h))) a) = BoolOpt b f
      \<or> kind (snd (snd (parse argv (p, h))) a) = BoolOpt True f)"
proof (intro conjI impI)
  assume k: "kind opt = BoolOpt b f"
  then show "defaultHandler True value opt =
      (Some (ParseException ''Argument does not expect a value''), opt)"
    by (simp add: defaultHandler_def BoolOpt_defaultHandler_def)
  from k show "defaultHandler False value opt =
      (call_userHandler f True, opt\<lparr>kind := BoolOpt True f\<rparr>)"
    by (simp add: defaultHandler_def BoolOpt_defaultHandler_def)
next
  assume "kind (h a) = BoolOpt b f \<and> findArgByShortName p h c = Some a"
  then show "snd (parse_char p c False value h) =
        h(a := (h a)\<lparr>present := True, kind := BoolOpt True f\<rparr>)"
    by (simp add: parse_char_def resolve_store defaultHandler_def BoolOpt_defaultHandler_def
        setPresent_def)
next
  assume "kind (h a) = BoolOpt b f \<and> findArgByLongName p h name = Some a"
  then show "snd (parse_string p name False value h) =
        h(a := (h a)\<lparr>present := True, kind := BoolOpt True f\<rparr>)"
    by (simp add: parse_string_def resolve_store defaultHandler_def BoolOpt_defaultHandler_def
        setPresent_def)
next
  assume k: "kind (h a) = BoolOpt b f"
  let ?Q = "\<lambda>opt. kind opt = BoolOpt b f \<or> kind opt = BoolOpt True f"
  have "?Q (snd (snd (parse_loop (drop 1 argv) (p, h))) a)"
    by (rule parse_loop_inv [of ?Q]) (use k bool_kept in blast)+
  then show "kind (snd (snd (parse argv (p, h))) a) = BoolOpt b f
      \<or> kind (snd (snd (parse argv (p, h))) a) = BoolOpt True f"
    by (simp add: parse_def)
qed

theorem BoolOpt_never_false_witness:
  "kind (test_store 0) = BoolOpt False None
   \<and> defaultHandler True ''1'' (test_store 0) =
       (Some (ParseException ''Argument does not expect a value''), test_store 0)
   \<and> defaultHandler False [] (test_store 0) =
       (None, (test_store 0)\<lparr>kind := BoolOpt True None\<rparr>)
   \<and> findArgByShortName test_parser test_store CHR ''i'' = Some 0
   \<and> snd (parse_char test_parser CHR ''i'' False [] test_store) =
       test_store(0 := (test_store 0)\<lparr>present := True, kind := BoolOpt True None\<rparr>)
   \<and> findArgByLongName test_parser test_store ''is'' = Some 0
   \<and> snd (parse_string test_parser ''is'' False [] test_store) =
       test_store(0 := (test_store 0)\<lparr>present := True, kind := BoolOpt True None\<rparr>)
   \<and> (kind (snd (snd (parse [''zeta'', ''--is'', ''-x=4''] (test_parser, test_store))) 0) =
         BoolOpt False None
       \<or> kind (snd (snd (parse [''zeta'', ''--is'', ''-x=4''] (test_parser, test_store))) 0) =
         BoolOpt True None)"
proof -
  note t = BoolOpt_never_false [of "test_store 0" False None "''1''" test_store 0 test_parser
      "CHR ''i''" "''is''" "[''zeta'', ''--is'', ''-x=4'']"]
  note u = BoolOpt_never_false [of "test_store 0" False None "[]" test_store 0 test_parser
      "CHR ''i''" "''is''" "[''zeta'', ''--is'', ''-x=4'']"]
  have s1: "defaultHandler True ''1'' (test_store 0) =
       (Some (ParseException ''Argument does not expect a value''), test_store 0)"
    using t [THEN conjunct1] test_kind(1) by blast
  have s2: "defaultHandler False [] (test_store 0) =
       (None, (test_store 0)\<lparr>kind := BoolOpt True None\<rparr>)"
    using u [THEN conjunct1] test_kind(1) by (simp add: call_userHandler_def)
  have s3: "snd (parse_char test_parser CHR ''i'' False [] test_store) =
       test_store(0 := (test_store 0)\<lparr>present := True, kind := BoolOpt True None\<rparr>)"
    using u [THEN conjunct2, THEN conjunct1] test_kind(1) test_find(1) by blast
  have s4: "snd (parse_string test_parser ''is'' False [] test_store) =
       test_store(0 := (test_store 0)\<lparr>present := True, kind := BoolOpt True None\<rparr>)"
    using u [THEN conjunct2, THEN conjunct2, THEN conjunct1] test_kind(1) test_find(5) by blast
  have s5: "kind (snd (snd (parse [''zeta'', ''--is'', ''-x=4''] (test_parser, test_store))) 0) =
         BoolOpt False None
       \<or> kind (snd (snd (parse [''zeta'', ''--is'', ''-x=4''] (test_parser, test_store))) 0) =
         BoolOpt True None"
    using u [THEN conjunct2, THEN conjunct2, THEN conjunct2] test_kind(1) by blast
  show ?thesis
    using s1 s2 s3 s4 s5 test_kind(1) test_find(1,5) by blast
qed

subsection \<open>One token after a prefix\<close>

lemmas eval_defs = parse_def parseShortName_def parseLongName_def substr_def parse_args.simps
  parse_char_def parse_string_def findArgByShortName_def findArgByLongName_def resolve_def
  setPresent_def defaultHandler_def BoolOpt_defaultHandler_def IntOpt_defaultHandler_def
  UintOpt_defaultHandler_def StrOpt_defaultHandler_def IntOpt_catch_def UintOpt_catch_def
  call_userHandler_def stoll_def stoull_def scan_number_def isspace_def isdigit_def
  digits_value_def digit_value_def isUint_def parseProgramName_def
  test_parser_def add_def new_OptParser_def Let_def

lemma resolve_all_append:
  "resolve_all p (xs @ ys) h =
     (case resolve_all p xs h of
        (Some e, h') \<Rightarrow> (Some e, h')
      | (None, h') \<Rightarrow> resolve_all p ys h')"
proof (induction xs arbitrary: h)
  case Nil
  show ?case by simp
next
  case (Cons x xs)
  obtain c ivp v where x: "x = (c, ivp, v)"
    by (cases x)
  obtain r h' where pc: "parse_char p c ivp v h = (r, h')"
    by (cases "parse_char p c ivp v h")
  show ?case
    using Cons.IH [of h'] pc by (cases r) (simp_all add: x)
qed

lemma parseLongName_step:
  "parseLongName p str h =
     (case long_step str of (name, isValPresent, value) \<Rightarrow>
        parse_string p name isValPresent value h)"
proof (cases "str_find CHR ''='' str")
  case None
  then have "CHR ''='' \<notin> set str"
    by (simp add: str_find_None)
  then show ?thesis
    by (simp add: parseLongName_def None long_step_def)
next
  case (Some idx)
  then have "CHR ''='' \<in> set str"
    using str_find_None [of "CHR ''=''" str] by auto
  then show ?thesis
    using substr_split [OF Some] by (simp add: parseLongName_def Some long_step_def)
qed

lemma long_token:
  assumes "str \<noteq> []" "long_step str = (name, isValPresent, value)"
    and "parse_string p name isValPresent value h = (r, h')"
  shows "parse_loop [CHR ''-'' # CHR ''-'' # str] (p, h) = (r, p, h')"
  using assms by (cases r) (simp_all add: parse_loop_long parseLongName_step)

lemma short_token:
  assumes "str \<noteq> []" "hd str \<noteq> CHR ''-''"
    and "resolve_all p (cluster_steps str) h = (r, h')"
  shows "parse_loop [CHR ''-'' # str] (p, h) = (r, p, h')"
proof -
  obtain c cs where str: "str = c # cs" and c: "c \<noteq> CHR ''-''"
    using assms(1,2) by (cases str) auto
  show ?thesis
    using assms(3) parse_loop_short [OF c, of cs "[]" p h]
    by (cases r) (simp_all add: str parseShortName_steps)
qed

lemma short_token_stops:
  assumes "str \<noteq> []" "hd str \<noteq> CHR ''-''"
    and "cluster_steps str = before @ (c, isValPresent, value) # after"
    and "resolve_all p before h = (None, hk)"
    and "parse_char p c isValPresent value hk = (Some e, h')"
  shows "parse_loop [CHR ''-'' # str] (p, h) = (Some e, p, h')"
proof -
  have "resolve_all p (cluster_steps str) h = (Some e, h')"
    using assms(3-5) by (simp add: resolve_all_append)
  then show ?thesis
    by (rule short_token [OF assms(1,2)])
qed

lemma parse_stops:
  assumes "''--'' \<notin> set pre" "parse_loop pre (p, h) = (None, p1, h1)"
    and "parse_loop [t] (p1, h1) = (Some e, p2, h2)"
  shows "parse (argv0 # pre @ t # post) (p, h) = (Some e, p2, h2)"
proof -
  have one: "parse_loop (t # post) (p1, h1) = (Some e, p2, h2)"
  proof (cases "t = ''--''")
    case True
    then show ?thesis
      using assms(3) by (simp split: if_splits)
  next
    case False
    then show ?thesis
      using assms(3) parse_loop_Cons [OF False, of post p1 h1] by simp
  qed
  have "parse_loop (pre @ t # post) (p, h) = parse_loop (t # post) (p1, h1)"
    using assms(1,2) by (simp add: parse_loop_append)
  then show ?thesis
    using one by (simp add: parse_def)
qed

subsection \<open>Descriptors a token does not name\<close>











subsection \<open>User handlers, at the caller of the parse\<close>

lemma resolve_rethrown:
  assumes "fst (defaultHandler isValPresent value (setPresent (h a))) = Some (ParseException msg)"
  shows "resolve a key isValPresent value h =
     (Some (ParseException (''Parsing of '' @ key @ '' failed: '' @ msg)),
      h(a := snd (defaultHandler isValPresent value (setPresent (h a)))))"
  using assms resolve_rethrow [of isValPresent "value" h a msg
      "snd (defaultHandler isValPresent value (setPresent (h a)))" key]
  by (simp add: prod_eq_iff)

text \<open>
  C9, amended. When the user handler of an option throws a \<^verbatim>\<open>ParseException\<close> during
  coercion, the coercion throws that exception, with its message unchanged; the
  resolving \<^verbatim>\<open>parse\<close> catches it and throws a \<^verbatim>\<open>ParseException\<close> whose message
  is \<^verbatim>\<open>Parsing of <name> failed: \<close> followed by exactly the message of the handler;
  and that is the exception the caller of \<^verbatim>\<open>parse\<close> on an argument vector sees,
  for a long-option token and for any name of a short-option cluster, whatever the
  tokens before and after.
\<close>

theorem callback_failure_rethrown:
  "(kind opt = BoolOpt b (Some f) \<and> f True = Some (ParseException msg) \<longrightarrow>
      fst (defaultHandler False v opt) = Some (ParseException msg))
   \<and> (kind opt = IntOpt pv (Some g) \<and> stoll v = Inr w \<and> g w = Some (ParseException msg) \<longrightarrow>
      fst (defaultHandler True v opt) = Some (ParseException msg))
   \<and> (kind opt = UintOpt pv (Some g) \<and> isUint v \<and> stoull v = Inr w
       \<and> g w = Some (ParseException msg) \<longrightarrow>
      fst (defaultHandler True v opt) = Some (ParseException msg))
   \<and> (kind opt = StrOpt s (Some k) \<and> k v = Some (ParseException msg) \<longrightarrow>
      fst (defaultHandler True v opt) = Some (ParseException msg))
   \<and> (findArgByShortName p h c = Some a
       \<and> fst (defaultHandler isValPresent v (setPresent (h a))) = Some (ParseException msg) \<longrightarrow>
      fst (parse_char p c isValPresent v h) =
        Some (ParseException (''Parsing of '' @ [c] @ '' failed: '' @ msg)))
   \<and> (findArgByLongName p h name = Some a
       \<and> fst (defaultHandler isValPresent v (setPresent (h a))) = Some (ParseException msg) \<longrightarrow>
      fst (parse_string p name isValPresent v h) =
        Some (ParseException (''Parsing of '' @ name @ '' failed: '' @ msg)))
   \<and> (''--'' \<notin> set pre \<and> parse_loop pre (p, h) = (None, p1, h1)
       \<and> str \<noteq> [] \<and> long_step str = (name, isValPresent, v)
       \<and> findArgByLongName p1 h1 name = Some a
       \<and> fst (defaultHandler isValPresent v (setPresent (h1 a))) = Some (ParseException msg) \<longrightarrow>
      parse (argv0 # pre @ (CHR ''-'' # CHR ''-'' # str) # post) (p, h) =
        (Some (ParseException (''Parsing of '' @ name @ '' failed: '' @ msg)), p1,
         h1(a := snd (defaultHandler isValPresent v (setPresent (h1 a))))))
   \<and> (''--'' \<notin> set pre \<and> parse_loop pre (p, h) = (None, p1, h1)
       \<and> str \<noteq> [] \<and> hd str \<noteq> CHR ''-''
       \<and> cluster_steps str = before @ (c, isValPresent, v) # after
       \<and> resolve_all p1 before h1 = (None, hk)
       \<and> findArgByShortName p1 hk c = Some a
       \<and> fst (defaultHandler isValPresent v (setPresent (hk a))) = Some (ParseException msg) \<longrightarrow>
      parse (argv0 # pre @ (CHR ''-'' # str) # post) (p, h) =
        (Some (ParseException (''Parsing of '' @ [c] @ '' failed: '' @ msg)), p1,
         hk(a := snd (defaultHandler isValPresent v (setPresent (hk a))))))"
proof (intro conjI impI)
  assume "kind opt = BoolOpt b (Some f) \<and> f True = Some (ParseException msg)"
  then show "fst (defaultHandler False v opt) = Some (ParseException msg)"
    by (simp add: defaultHandler_def BoolOpt_defaultHandler_def call_userHandler_def)
next
  assume "kind opt = IntOpt pv (Some g) \<and> stoll v = Inr w \<and> g w = Some (ParseException msg)"
  then show "fst (defaultHandler True v opt) = Some (ParseException msg)"
    by (simp add: defaultHandler_def IntOpt_defaultHandler_def call_userHandler_def
        IntOpt_catch_def)
next
  assume "kind opt = UintOpt pv (Some g) \<and> isUint v \<and> stoull v = Inr w
       \<and> g w = Some (ParseException msg)"
  then show "fst (defaultHandler True v opt) = Some (ParseException msg)"
    by (simp add: defaultHandler_def UintOpt_defaultHandler_def call_userHandler_def
        UintOpt_catch_def)
next
  assume "kind opt = StrOpt s (Some k) \<and> k v = Some (ParseException msg)"
  then show "fst (defaultHandler True v opt) = Some (ParseException msg)"
    by (simp add: defaultHandler_def StrOpt_defaultHandler_def call_userHandler_def)
next
  assume "findArgByShortName p h c = Some a
       \<and> fst (defaultHandler isValPresent v (setPresent (h a))) = Some (ParseException msg)"
  then show "fst (parse_char p c isValPresent v h) =
        Some (ParseException (''Parsing of '' @ [c] @ '' failed: '' @ msg))"
    by (simp add: parse_char_def resolve_outcome)
next
  assume "findArgByLongName p h name = Some a
       \<and> fst (defaultHandler isValPresent v (setPresent (h a))) = Some (ParseException msg)"
  then show "fst (parse_string p name isValPresent v h) =
        Some (ParseException (''Parsing of '' @ name @ '' failed: '' @ msg))"
    by (simp add: parse_string_def resolve_outcome)
next
  assume A: "''--'' \<notin> set pre \<and> parse_loop pre (p, h) = (None, p1, h1)
       \<and> str \<noteq> [] \<and> long_step str = (name, isValPresent, v)
       \<and> findArgByLongName p1 h1 name = Some a
       \<and> fst (defaultHandler isValPresent v (setPresent (h1 a))) = Some (ParseException msg)"
  then have "parse_string p1 name isValPresent v h1 =
      (Some (ParseException (''Parsing of '' @ name @ '' failed: '' @ msg)),
       h1(a := snd (defaultHandler isValPresent v (setPresent (h1 a)))))"
    by (simp add: parse_string_def resolve_rethrown)
  then have "parse_loop [CHR ''-'' # CHR ''-'' # str] (p1, h1) =
      (Some (ParseException (''Parsing of '' @ name @ '' failed: '' @ msg)), p1,
       h1(a := snd (defaultHandler isValPresent v (setPresent (h1 a)))))"
    using A by (intro long_token) blast+
  then show "parse (argv0 # pre @ (CHR ''-'' # CHR ''-'' # str) # post) (p, h) =
        (Some (ParseException (''Parsing of '' @ name @ '' failed: '' @ msg)), p1,
         h1(a := snd (defaultHandler isValPresent v (setPresent (h1 a)))))"
    using A by (intro parse_stops) blast+
next
  assume A: "''--'' \<notin> set pre \<and> parse_loop pre (p, h) = (None, p1, h1)
       \<and> str \<noteq> [] \<and> hd str \<noteq> CHR ''-''
       \<and> cluster_steps str = before @ (c, isValPresent, v) # after
       \<and> resolve_all p1 before h1 = (None, hk)
       \<and> findArgByShortName p1 hk c = Some a
       \<and> fst (defaultHandler isValPresent v (setPresent (hk a))) = Some (ParseException msg)"
  then have "parse_char p1 c isValPresent v hk =
      (Some (ParseException (''Parsing of '' @ [c] @ '' failed: '' @ msg)),
       hk(a := snd (defaultHandler isValPresent v (setPresent (hk a)))))"
    by (simp add: parse_char_def resolve_rethrown)
  then have "parse_loop [CHR ''-'' # str] (p1, h1) =
      (Some (ParseException (''Parsing of '' @ [c] @ '' failed: '' @ msg)), p1,
       hk(a := snd (defaultHandler isValPresent v (setPresent (hk a)))))"
    using A by (intro short_token_stops) blast+
  then show "parse (argv0 # pre @ (CHR ''-'' # str) # post) (p, h) =
        (Some (ParseException (''Parsing of '' @ [c] @ '' failed: '' @ msg)), p1,
         hk(a := snd (defaultHandler isValPresent v (setPresent (hk a)))))"
    using A by (intro parse_stops) blast+
qed

theorem callback_failure_rethrown_witness:
  "kind ((test_store 0)\<lparr>kind := BoolOpt False (Some rejecting)\<rparr>) = BoolOpt False (Some rejecting)
   \<and> rejecting True = Some (ParseException ''rejected'')
   \<and> fst (defaultHandler False [] ((test_store 0)\<lparr>kind := BoolOpt False (Some rejecting)\<rparr>)) =
       Some (ParseException ''rejected'')
   \<and> kind (test_store0 1) = IntOpt 1100 (Some customChecker)
   \<and> stoll ''2000'' = Inr 2000
   \<and> customChecker 2000 = Some (ParseException ''Value is more that 1000'')
   \<and> fst (defaultHandler True ''2000'' (test_store0 1)) =
       Some (ParseException ''Value is more that 1000'')
   \<and> kind ((test_store 2)\<lparr>kind := UintOpt 2200 (Some rejecting)\<rparr>) = UintOpt 2200 (Some rejecting)
   \<and> isUint ''5'' \<and> stoull ''5'' = Inr 5
   \<and> rejecting (5 :: 64 word) = Some (ParseException ''rejected'')
   \<and> fst (defaultHandler True ''5'' ((test_store 2)\<lparr>kind := UintOpt 2200 (Some rejecting)\<rparr>)) =
       Some (ParseException ''rejected'')
   \<and> kind ((test_store 3)\<lparr>kind := StrOpt ''Blah'' (Some rejecting)\<rparr>) =
       StrOpt ''Blah'' (Some rejecting)
   \<and> rejecting ''abc'' = Some (ParseException ''rejected'')
   \<and> fst (defaultHandler True ''abc'' ((test_store 3)\<lparr>kind := StrOpt ''Blah'' (Some rejecting)\<rparr>)) =
       Some (ParseException ''rejected'')
   \<and> findArgByShortName test_parser test_store0 CHR ''j'' = Some 1
   \<and> fst (defaultHandler True ''2000'' (setPresent (test_store0 1))) =
       Some (ParseException ''Value is more that 1000'')
   \<and> fst (parse_char test_parser CHR ''j'' True ''2000'' test_store0) =
       Some (ParseException ''Parsing of j failed: Value is more that 1000'')
   \<and> findArgByLongName test_parser test_store0 ''js'' = Some 1
   \<and> fst (parse_string test_parser ''js'' True ''2000'' test_store0) =
       Some (ParseException ''Parsing of js failed: Value is more that 1000'')
   \<and> ''--'' \<notin> set [''--is'']
   \<and> parse_loop [''--is''] (test_parser, test_store0) =
       (None, test_parser,
        test_store0(0 := (test_store0 0)\<lparr>present := True, kind := BoolOpt True None\<rparr>))
   \<and> long_step ''js=2000'' = (''js'', True, ''2000'')
   \<and> parse [''zeta'', ''--is'', ''--js=2000'', ''-x''] (test_parser, test_store0) =
       (Some (ParseException ''Parsing of js failed: Value is more that 1000''), test_parser,
        test_store0(0 := (test_store0 0)\<lparr>present := True, kind := BoolOpt True None\<rparr>,
                    1 := (test_store0 1)\<lparr>present := True, kind := IntOpt 2000 (Some customChecker)\<rparr>))
   \<and> cluster_steps ''ij=2000'' = [(CHR ''i'', False, [])] @ (CHR ''j'', True, ''2000'') # []
   \<and> resolve_all test_parser [(CHR ''i'', False, [])] test_store0 =
       (None, test_store0(0 := (test_store0 0)\<lparr>present := True, kind := BoolOpt True None\<rparr>))
   \<and> parse [''zeta'', ''-ij=2000'', ''-x''] (test_parser, test_store0) =
       (Some (ParseException ''Parsing of j failed: Value is more that 1000''), test_parser,
        test_store0(0 := (test_store0 0)\<lparr>present := True, kind := BoolOpt True None\<rparr>,
                    1 := (test_store0 1)\<lparr>present := True, kind := IntOpt 2000 (Some customChecker)\<rparr>))"
proof -
  define hi where "hi = test_store0(0 := (test_store0 0)\<lparr>present := True, kind := BoolOpt True None\<rparr>)"
  define hj where "hj = hi(1 := (test_store0 1)\<lparr>present := True, kind := IntOpt 2000 (Some customChecker)\<rparr>)"
  have n: "''--'' \<notin> set [''--is'']" and n0: "''--'' \<notin> set ([] :: string list)"
    by simp_all
  have li: "parse_loop [''--is''] (test_parser, test_store0) = (None, test_parser, hi)"
    by (simp add: eval_defs test_store0_def test_store_def hi_def)
  have l0: "parse_loop [] (test_parser, test_store0) = (None, test_parser, test_store0)"
    by simp
  have ls: "long_step ''js=2000'' = (''js'', True, ''2000'')"
    by (simp add: long_step_def)
  have cs: "cluster_steps ''ij=2000'' = [(CHR ''i'', False, [])] @ (CHR ''j'', True, ''2000'') # []"
    using cluster_steps_value [of "''i''" "CHR ''j''" "''2000''"] by simp
  have ri: "resolve_all test_parser [(CHR ''i'', False, [])] test_store0 = (None, hi)"
    by (simp add: eval_defs test_store0_def test_store_def hi_def)
  have fl: "findArgByLongName test_parser hi ''js'' = Some 1"
    and fs: "findArgByShortName test_parser hi CHR ''j'' = Some 1"
    by (simp_all add: eval_defs test_store0_def test_store_def hi_def)
  have dj: "defaultHandler True ''2000'' (setPresent (hi 1)) =
      (Some (ParseException ''Value is more that 1000''),
       (test_store0 1)\<lparr>present := True, kind := IntOpt 2000 (Some customChecker)\<rparr>)"
    by (simp add: eval_defs test_store0_def test_store_def hi_def customChecker_def)
  note tl = callback_failure_rethrown [where pre = "[''--is'']" and p = test_parser
      and h = test_store0 and ?p1.0 = test_parser and ?h1.0 = hi and str = "''js=2000''"
      and name = "''js''" and isValPresent = True and v = "''2000''" and a = 1
      and msg = "''Value is more that 1000''" and ?argv0.0 = "''zeta''" and post = "[''-x'']",
      THEN conjunct2, THEN conjunct2, THEN conjunct2, THEN conjunct2, THEN conjunct2,
      THEN conjunct2, THEN conjunct1]
  note tc = callback_failure_rethrown [where pre = "[]" and p = test_parser
      and h = test_store0 and ?p1.0 = test_parser and ?h1.0 = test_store0 and str = "''ij=2000''"
      and before = "[(CHR ''i'', False, [])]" and c = "CHR ''j''" and after = "[]" and hk = hi
      and isValPresent = True and v = "''2000''" and a = 1
      and msg = "''Value is more that 1000''" and ?argv0.0 = "''zeta''" and post = "[''-x'']",
      THEN conjunct2, THEN conjunct2, THEN conjunct2, THEN conjunct2, THEN conjunct2,
      THEN conjunct2, THEN conjunct2]
  have pl: "parse [''zeta'', ''--is'', ''--js=2000'', ''-x''] (test_parser, test_store0) =
      (Some (ParseException ''Parsing of js failed: Value is more that 1000''), test_parser, hj)"
    using tl n li ls fl dj by (simp add: hj_def)
  have pc2: "parse [''zeta'', ''-ij=2000'', ''-x''] (test_parser, test_store0) =
      (Some (ParseException ''Parsing of j failed: Value is more that 1000''), test_parser, hj)"
    using tc n0 l0 cs ri fs dj by (simp add: hj_def)
  note tb = callback_failure_rethrown [where opt = "(test_store 0)\<lparr>kind := BoolOpt False (Some rejecting)\<rparr>"
      and b = False and f = rejecting and msg = "''rejected''" and v = "[]", THEN conjunct1]
  note ti = callback_failure_rethrown [where opt = "test_store0 1" and pv = 1100
      and g = customChecker and msg = "''Value is more that 1000''" and v = "''2000''"
      and w = 2000 and p = test_parser and h = test_store0 and c = "CHR ''j''" and a = 1
      and isValPresent = True and name = "''js''"]
  note tu = callback_failure_rethrown [where opt = "(test_store 2)\<lparr>kind := UintOpt 2200 (Some rejecting)\<rparr>"
      and pv = 2200 and g = rejecting and msg = "''rejected''" and v = "''5''" and w = 5,
      THEN conjunct2, THEN conjunct2, THEN conjunct1]
  note ts = callback_failure_rethrown [where opt = "(test_store 3)\<lparr>kind := StrOpt ''Blah'' (Some rejecting)\<rparr>"
      and s = "''Blah''" and k = rejecting and msg = "''rejected''" and v = "''abc''",
      THEN conjunct2, THEN conjunct2, THEN conjunct2, THEN conjunct1]
  have u: "isUint ''5''"
    by (simp add: isUint_def isdigit_def)
  have d: "fst (defaultHandler True ''2000'' (setPresent (test_store0 1))) =
       Some (ParseException ''Value is more that 1000'')"
    using test0_coercion by simp
  have b: "fst (defaultHandler False [] ((test_store 0)\<lparr>kind := BoolOpt False (Some rejecting)\<rparr>)) =
       Some (ParseException ''rejected'')"
    using tb by (simp add: rejecting_def)
  have i: "fst (defaultHandler True ''2000'' (test_store0 1)) =
       Some (ParseException ''Value is more that 1000'')"
    using ti [THEN conjunct2, THEN conjunct1] test0_find(3) stoll_2000 customChecker_2000 by blast
  have un: "fst (defaultHandler True ''5'' ((test_store 2)\<lparr>kind := UintOpt 2200 (Some rejecting)\<rparr>)) =
       Some (ParseException ''rejected'')"
    using tu u stoull_5 by (simp add: rejecting_def)
  have st: "fst (defaultHandler True ''abc'' ((test_store 3)\<lparr>kind := StrOpt ''Blah'' (Some rejecting)\<rparr>)) =
       Some (ParseException ''rejected'')"
    using ts by (simp add: rejecting_def)
  have pc: "fst (parse_char test_parser CHR ''j'' True ''2000'' test_store0) =
       Some (ParseException ''Parsing of j failed: Value is more that 1000'')"
    using ti [THEN conjunct2, THEN conjunct2, THEN conjunct2, THEN conjunct2, THEN conjunct1]
      test0_find(1) d by simp
  have ps: "fst (parse_string test_parser ''js'' True ''2000'' test_store0) =
       Some (ParseException ''Parsing of js failed: Value is more that 1000'')"
    using ti [THEN conjunct2, THEN conjunct2, THEN conjunct2, THEN conjunct2, THEN conjunct2]
      test0_find(2) d by simp
  have r: "rejecting True = Some (ParseException ''rejected'')"
    "rejecting (5 :: 64 word) = Some (ParseException ''rejected'')"
    "rejecting ''abc'' = Some (ParseException ''rejected'')"
    by (simp_all add: rejecting_def)
  have k: "kind ((test_store 0)\<lparr>kind := BoolOpt False (Some rejecting)\<rparr>) = BoolOpt False (Some rejecting)"
    "kind ((test_store 2)\<lparr>kind := UintOpt 2200 (Some rejecting)\<rparr>) = UintOpt 2200 (Some rejecting)"
    "kind ((test_store 3)\<lparr>kind := StrOpt ''Blah'' (Some rejecting)\<rparr>) = StrOpt ''Blah'' (Some rejecting)"
    by simp_all
  have old: "kind ((test_store 0)\<lparr>kind := BoolOpt False (Some rejecting)\<rparr>) = BoolOpt False (Some rejecting)
   \<and> rejecting True = Some (ParseException ''rejected'')
   \<and> fst (defaultHandler False [] ((test_store 0)\<lparr>kind := BoolOpt False (Some rejecting)\<rparr>)) =
       Some (ParseException ''rejected'')
   \<and> kind (test_store0 1) = IntOpt 1100 (Some customChecker)
   \<and> stoll ''2000'' = Inr 2000
   \<and> customChecker 2000 = Some (ParseException ''Value is more that 1000'')
   \<and> fst (defaultHandler True ''2000'' (test_store0 1)) =
       Some (ParseException ''Value is more that 1000'')
   \<and> kind ((test_store 2)\<lparr>kind := UintOpt 2200 (Some rejecting)\<rparr>) = UintOpt 2200 (Some rejecting)
   \<and> isUint ''5'' \<and> stoull ''5'' = Inr 5
   \<and> rejecting (5 :: 64 word) = Some (ParseException ''rejected'')
   \<and> fst (defaultHandler True ''5'' ((test_store 2)\<lparr>kind := UintOpt 2200 (Some rejecting)\<rparr>)) =
       Some (ParseException ''rejected'')
   \<and> kind ((test_store 3)\<lparr>kind := StrOpt ''Blah'' (Some rejecting)\<rparr>) =
       StrOpt ''Blah'' (Some rejecting)
   \<and> rejecting ''abc'' = Some (ParseException ''rejected'')
   \<and> fst (defaultHandler True ''abc'' ((test_store 3)\<lparr>kind := StrOpt ''Blah'' (Some rejecting)\<rparr>)) =
       Some (ParseException ''rejected'')
   \<and> findArgByShortName test_parser test_store0 CHR ''j'' = Some 1
   \<and> fst (defaultHandler True ''2000'' (setPresent (test_store0 1))) =
       Some (ParseException ''Value is more that 1000'')
   \<and> fst (parse_char test_parser CHR ''j'' True ''2000'' test_store0) =
       Some (ParseException ''Parsing of j failed: Value is more that 1000'')
   \<and> findArgByLongName test_parser test_store0 ''js'' = Some 1
   \<and> fst (parse_string test_parser ''js'' True ''2000'' test_store0) =
       Some (ParseException ''Parsing of js failed: Value is more that 1000'')"
    using b i un st pc ps d u r k test0_find stoll_2000 stoull_5 customChecker_2000 by blast
  show ?thesis
    using old n li ls pl cs ri pc2 unfolding hi_def hj_def by blast
qed

subsection \<open>Presence and failed coercions, at the caller of the parse\<close>

lemma parse_continues:
  assumes "''--'' \<notin> set pre" "parse_loop pre (p, h) = (None, p1, h1)"
    and "t \<noteq> ''--''" "parse_loop [t] (p1, h1) = (r, p2, h2)"
  shows "parse (argv0 # pre @ t # post) (p, h) =
     (case r of Some e \<Rightarrow> (Some e, p2, h2) | None \<Rightarrow> parse_loop post (p2, h2))"
proof -
  have "parse_loop (t # post) (p1, h1) =
      (case r of Some e \<Rightarrow> (Some e, p2, h2) | None \<Rightarrow> parse_loop post (p2, h2))"
    by (subst parse_loop_Cons [OF assms(3)], cases r) (simp_all only: assms(4) prod.case option.case)
  moreover have "parse_loop (pre @ t # post) (p, h) = parse_loop (t # post) (p1, h1)"
    using assms(1,2) by (simp add: parse_loop_append)
  ultimately show ?thesis
    by (simp add: parse_def)
qed

lemma present_after_token:
  assumes "''--'' \<notin> set pre" "parse_loop pre (p, h) = (None, p1, h1)"
    and "t \<noteq> ''--''" "parse_loop [t] (p1, h1) = (r, p2, h2)" "present (h2 a)"
  shows "present (snd (snd (parse (argv0 # pre @ t # post) (p, h))) a)"
proof (cases r)
  case None
  have "present (snd (snd (parse_loop post (p2, h2))) a)"
    using assms(5) by (intro parse_loop_inv [of present] present_kept)
  then show ?thesis
    by (simp add: parse_continues [OF assms(1-4)] None)
next
  case (Some e)
  then show ?thesis
    using assms(5) by (simp add: parse_continues [OF assms(1-4)])
qed

lemma present_after_long:
  "(''--'' \<notin> set pre \<and> parse_loop pre (p, h) = (None, p1, h1)
       \<and> str \<noteq> [] \<and> long_step str = (name, isValPresent, value)
       \<and> findArgByLongName p1 h1 name = Some a \<longrightarrow>
      present (snd (snd (parse (argv0 # pre @ (CHR ''-'' # CHR ''-'' # str) # post) (p, h))) a)
      \<and> (fst (defaultHandler isValPresent value (setPresent (h1 a))) \<noteq> None \<longrightarrow>
           fst (parse (argv0 # pre @ (CHR ''-'' # CHR ''-'' # str) # post) (p, h)) \<noteq> None
           \<and> snd (snd (parse (argv0 # pre @ (CHR ''-'' # CHR ''-'' # str) # post) (p, h))) =
               h1(a := snd (defaultHandler isValPresent value (setPresent (h1 a))))))"
proof (intro impI)
  assume A: "''--'' \<notin> set pre \<and> parse_loop pre (p, h) = (None, p1, h1)
       \<and> str \<noteq> [] \<and> long_step str = (name, isValPresent, value)
       \<and> findArgByLongName p1 h1 name = Some a"
  let ?d = "defaultHandler isValPresent value (setPresent (h1 a))"
  let ?t = "CHR ''-'' # CHR ''-'' # str"
  obtain r h2 where ps: "parse_string p1 name isValPresent value h1 = (r, h2)"
    by (cases "parse_string p1 name isValPresent value h1")
  have rs: "parse_string p1 name isValPresent value h1 = resolve a name isValPresent value h1"
    using A by (simp add: parse_string_def)
  have h2: "h2 = h1(a := snd ?d)"
    using ps rs resolve_store [of a name isValPresent "value" h1] by simp
  have pr: "present (h2 a)"
    using ps rs resolve_present [of a name isValPresent "value" h1] by simp
  have tok: "parse_loop [?t] (p1, h1) = (r, p1, h2)"
    using A ps by (intro long_token) blast+
  have ne: "?t \<noteq> ''--''"
    using A by simp
  have n: "''--'' \<notin> set pre" and l: "parse_loop pre (p, h) = (None, p1, h1)"
    using A by blast+
  have one: "present (snd (snd (parse (argv0 # pre @ ?t # post) (p, h))) a)"
    using present_after_token [OF n l ne tok pr] .
  have two: "fst (parse (argv0 # pre @ ?t # post) (p, h)) \<noteq> None
      \<and> snd (snd (parse (argv0 # pre @ ?t # post) (p, h))) = h1(a := snd ?d)"
    if "fst ?d \<noteq> None"
  proof -
    have "fst (resolve a name isValPresent value h1) \<noteq> None"
      using that by (rule resolve_fails)
    then obtain e where "r = Some e"
      using ps rs by auto
    then show ?thesis
      using parse_continues [OF n l ne tok, of argv0 post] h2 by simp
  qed
  show "present (snd (snd (parse (argv0 # pre @ ?t # post) (p, h))) a)
      \<and> (fst ?d \<noteq> None \<longrightarrow>
           fst (parse (argv0 # pre @ ?t # post) (p, h)) \<noteq> None
           \<and> snd (snd (parse (argv0 # pre @ ?t # post) (p, h))) = h1(a := snd ?d))"
    using one two by blast
qed

lemma present_after_short:
  "(''--'' \<notin> set pre \<and> parse_loop pre (p, h) = (None, p1, h1)
       \<and> str \<noteq> [] \<and> hd str \<noteq> CHR ''-''
       \<and> cluster_steps str = before @ (c, isValPresent, value) # after
       \<and> resolve_all p1 before h1 = (None, hk)
       \<and> findArgByShortName p1 hk c = Some a \<longrightarrow>
      present (snd (snd (parse (argv0 # pre @ (CHR ''-'' # str) # post) (p, h))) a)
      \<and> (fst (defaultHandler isValPresent value (setPresent (hk a))) \<noteq> None \<longrightarrow>
           fst (parse (argv0 # pre @ (CHR ''-'' # str) # post) (p, h)) \<noteq> None
           \<and> snd (snd (parse (argv0 # pre @ (CHR ''-'' # str) # post) (p, h))) =
               hk(a := snd (defaultHandler isValPresent value (setPresent (hk a))))))"
proof (intro impI)
  assume A: "''--'' \<notin> set pre \<and> parse_loop pre (p, h) = (None, p1, h1)
       \<and> str \<noteq> [] \<and> hd str \<noteq> CHR ''-''
       \<and> cluster_steps str = before @ (c, isValPresent, value) # after
       \<and> resolve_all p1 before h1 = (None, hk)
       \<and> findArgByShortName p1 hk c = Some a"
  let ?d = "defaultHandler isValPresent value (setPresent (hk a))"
  let ?t = "CHR ''-'' # str"
  obtain r h2 where pc: "parse_char p1 c isValPresent value hk = (r, h2)"
    by (cases "parse_char p1 c isValPresent value hk")
  have rs: "parse_char p1 c isValPresent value hk = resolve a [c] isValPresent value hk"
    using A by (simp add: parse_char_def)
  have h2: "h2 = hk(a := snd ?d)"
    using pc rs resolve_store [of a "[c]" isValPresent "value" hk] by simp
  have pr: "present (h2 a)"
    using pc rs resolve_present [of a "[c]" isValPresent "value" hk] by simp
  obtain r' h3 where ra: "resolve_all p1 after h2 = (r', h3)"
    by (cases "resolve_all p1 after h2")
  have pr3: "present (h3 a)"
    using resolve_all_inv [of present h2 a p1 after, OF present_kept pr] ra by simp
  have all: "resolve_all p1 (cluster_steps str) h1 =
      (case r of Some e \<Rightarrow> (Some e, h2) | None \<Rightarrow> (r', h3))"
    using A pc ra by (cases r) (simp_all add: resolve_all_append)
  have ne: "?t \<noteq> ''--''"
    using A by (cases str) auto
  have n: "''--'' \<notin> set pre" and l: "parse_loop pre (p, h) = (None, p1, h1)"
    and s1: "str \<noteq> []" and s2: "hd str \<noteq> CHR ''-''"
    using A by blast+
  show "present (snd (snd (parse (argv0 # pre @ ?t # post) (p, h))) a)
      \<and> (fst ?d \<noteq> None \<longrightarrow>
           fst (parse (argv0 # pre @ ?t # post) (p, h)) \<noteq> None
           \<and> snd (snd (parse (argv0 # pre @ ?t # post) (p, h))) = hk(a := snd ?d))"
  proof (cases r)
    case None
    then have tok: "parse_loop [?t] (p1, h1) = (r', p1, h3)"
      using all by (intro short_token [OF s1 s2]) simp
    have "fst ?d = None"
    proof (rule ccontr)
      assume "fst ?d \<noteq> None"
      then have "fst (resolve a [c] isValPresent value hk) \<noteq> None"
        by (rule resolve_fails)
      then show False
        using None pc rs by simp
    qed
    then show ?thesis
      using present_after_token [OF n l ne tok pr3] by simp
  next
    case (Some e)
    then have tok: "parse_loop [?t] (p1, h1) = (Some e, p1, h2)"
      using all by (intro short_token [OF s1 s2]) simp
    have one: "present (snd (snd (parse (argv0 # pre @ ?t # post) (p, h))) a)"
      using present_after_token [OF n l ne tok pr] .
    have "parse (argv0 # pre @ ?t # post) (p, h) = (Some e, p1, hk(a := snd ?d))"
      using parse_continues [OF n l ne tok, of argv0 post] h2 by simp
    then have "fst (parse (argv0 # pre @ ?t # post) (p, h)) \<noteq> None
        \<and> snd (snd (parse (argv0 # pre @ ?t # post) (p, h))) = hk(a := snd ?d)"
      by simp
    then show ?thesis
      using one by blast
  qed
qed

lemma integer_coercion_fails:
  "((kind opt = IntOpt pValue userHandler \<and> (\<not> isValPresent \<or> stoll value = Inl e))
       \<or> (kind opt = UintOpt pValue userHandler
           \<and> (\<not> isValPresent \<or> \<not> isUint value \<or> stoull value = Inl e)) \<longrightarrow>
      fst (defaultHandler isValPresent value opt) \<noteq> None
      \<and> snd (defaultHandler isValPresent value opt) = opt)"
  by (auto simp: defaultHandler_def IntOpt_defaultHandler_def UintOpt_defaultHandler_def)

text \<open>
  C10. When a token names a registered option, the descriptor is marked present before
  its coercion runs: the coercion receives the descriptor already marked, and whatever
  the outcome the descriptor is present afterwards. When the coercion fails, the
  resolution fails. This holds for the parse of an argument vector: after the parse,
  aborted or not, the option named by a long-option token that the scan reaches is
  present, and so is the option of every name of a short-option cluster that is
  resolved; when its coercion fails, the parse fails and the descriptors are the ones
  the earlier resolutions left, with this descriptor as the failed coercion left it.
  When the coercion of a signed or unsigned integer option fails for a missing value or
  a text that is not a number or is out of range, the descriptor is unchanged by the
  coercion, so after the aborted parse only its present flag has changed.
\<close>

theorem present_before_coercion:
  "(findArgByShortName p h c = Some a \<longrightarrow>
      snd (parse_char p c isValPresent value h) =
        h(a := snd (defaultHandler isValPresent value (setPresent (h a))))
      \<and> present (snd (parse_char p c isValPresent value h) a)
      \<and> (fst (defaultHandler isValPresent value (setPresent (h a))) \<noteq> None \<longrightarrow>
           fst (parse_char p c isValPresent value h) \<noteq> None))
   \<and> (findArgByLongName p h name = Some a \<longrightarrow>
      snd (parse_string p name isValPresent value h) =
        h(a := snd (defaultHandler isValPresent value (setPresent (h a))))
      \<and> present (snd (parse_string p name isValPresent value h) a)
      \<and> (fst (defaultHandler isValPresent value (setPresent (h a))) \<noteq> None \<longrightarrow>
           fst (parse_string p name isValPresent value h) \<noteq> None))
   \<and> (c \<noteq> CHR ''-'' \<and> c \<noteq> CHR ''='' \<and> findArgByShortName p h c = Some a
       \<and> kind (h a) = IntOpt pValue userHandler \<and> stoll value = Inl (out_of_range s) \<longrightarrow>
      parse (argv0 # (CHR ''-'' # c # CHR ''='' # value) # rest) (p, h) =
        (Some (ParseException
           (''Parsing of '' @ [c] @ '' failed: '' @ ''Value is not in range of a 64 bit int'')),
         p, h(a := (h a)\<lparr>present := True\<rparr>)))
   \<and> (c \<noteq> CHR ''-'' \<and> c \<noteq> CHR ''='' \<and> findArgByShortName p h c = Some a
       \<and> kind (h a) = IntOpt pValue userHandler \<and> stoll value = Inl (invalid_argument s) \<longrightarrow>
      parse (argv0 # (CHR ''-'' # c # CHR ''='' # value) # rest) (p, h) =
        (Some (ParseException
           (''Parsing of '' @ [c] @ '' failed: '' @ ''Argument expects an integer value'')),
         p, h(a := (h a)\<lparr>present := True\<rparr>)))
   \<and> (''--'' \<notin> set pre \<and> parse_loop pre (p, h) = (None, p1, h1)
       \<and> str \<noteq> [] \<and> long_step str = (name, isValPresent, value)
       \<and> findArgByLongName p1 h1 name = Some a \<longrightarrow>
      present (snd (snd (parse (argv0 # pre @ (CHR ''-'' # CHR ''-'' # str) # post) (p, h))) a)
      \<and> (fst (defaultHandler isValPresent value (setPresent (h1 a))) \<noteq> None \<longrightarrow>
           fst (parse (argv0 # pre @ (CHR ''-'' # CHR ''-'' # str) # post) (p, h)) \<noteq> None
           \<and> snd (snd (parse (argv0 # pre @ (CHR ''-'' # CHR ''-'' # str) # post) (p, h))) =
               h1(a := snd (defaultHandler isValPresent value (setPresent (h1 a))))))
   \<and> (''--'' \<notin> set pre \<and> parse_loop pre (p, h) = (None, p1, h1)
       \<and> str \<noteq> [] \<and> hd str \<noteq> CHR ''-''
       \<and> cluster_steps str = before @ (c, isValPresent, value) # after
       \<and> resolve_all p1 before h1 = (None, hk)
       \<and> findArgByShortName p1 hk c = Some a \<longrightarrow>
      present (snd (snd (parse (argv0 # pre @ (CHR ''-'' # str) # post) (p, h))) a)
      \<and> (fst (defaultHandler isValPresent value (setPresent (hk a))) \<noteq> None \<longrightarrow>
           fst (parse (argv0 # pre @ (CHR ''-'' # str) # post) (p, h)) \<noteq> None
           \<and> snd (snd (parse (argv0 # pre @ (CHR ''-'' # str) # post) (p, h))) =
               hk(a := snd (defaultHandler isValPresent value (setPresent (hk a))))))
   \<and> ((kind opt = IntOpt pValue userHandler \<and> (\<not> isValPresent \<or> stoll value = Inl e))
       \<or> (kind opt = UintOpt pValue userHandler
           \<and> (\<not> isValPresent \<or> \<not> isUint value \<or> stoull value = Inl e)) \<longrightarrow>
      fst (defaultHandler isValPresent value opt) \<noteq> None
      \<and> snd (defaultHandler isValPresent value opt) = opt)
   \<and> (''--'' \<notin> set pre \<and> parse_loop pre (p, h) = (None, p1, h1)
       \<and> str \<noteq> [] \<and> long_step str = (name, isValPresent, value)
       \<and> findArgByLongName p1 h1 name = Some a \<and> isValPresent
       \<and> ((kind (h1 a) = IntOpt pValue userHandler \<and> stoll value = Inl e)
            \<or> (kind (h1 a) = UintOpt pValue userHandler
                \<and> (\<not> isUint value \<or> stoull value = Inl e))) \<longrightarrow>
      fst (parse (argv0 # pre @ (CHR ''-'' # CHR ''-'' # str) # post) (p, h)) \<noteq> None
      \<and> snd (snd (parse (argv0 # pre @ (CHR ''-'' # CHR ''-'' # str) # post) (p, h))) = h1(a := (h1 a)\<lparr>present := True\<rparr>))
   \<and> (''--'' \<notin> set pre \<and> parse_loop pre (p, h) = (None, p1, h1)
       \<and> str \<noteq> [] \<and> hd str \<noteq> CHR ''-''
       \<and> cluster_steps str = before @ (c, isValPresent, value) # after
       \<and> resolve_all p1 before h1 = (None, hk)
       \<and> findArgByShortName p1 hk c = Some a \<and> isValPresent
       \<and> ((kind (hk a) = IntOpt pValue userHandler \<and> stoll value = Inl e)
            \<or> (kind (hk a) = UintOpt pValue userHandler
                \<and> (\<not> isUint value \<or> stoull value = Inl e))) \<longrightarrow>
      fst (parse (argv0 # pre @ (CHR ''-'' # str) # post) (p, h)) \<noteq> None
      \<and> snd (snd (parse (argv0 # pre @ (CHR ''-'' # str) # post) (p, h))) = hk(a := (hk a)\<lparr>present := True\<rparr>))"
proof -
  have old: "(findArgByShortName p h c = Some a \<longrightarrow>
      snd (parse_char p c isValPresent value h) =
        h(a := snd (defaultHandler isValPresent value (setPresent (h a))))
      \<and> present (snd (parse_char p c isValPresent value h) a)
      \<and> (fst (defaultHandler isValPresent value (setPresent (h a))) \<noteq> None \<longrightarrow>
           fst (parse_char p c isValPresent value h) \<noteq> None))
   \<and> (findArgByLongName p h name = Some a \<longrightarrow>
      snd (parse_string p name isValPresent value h) =
        h(a := snd (defaultHandler isValPresent value (setPresent (h a))))
      \<and> present (snd (parse_string p name isValPresent value h) a)
      \<and> (fst (defaultHandler isValPresent value (setPresent (h a))) \<noteq> None \<longrightarrow>
           fst (parse_string p name isValPresent value h) \<noteq> None))
   \<and> (c \<noteq> CHR ''-'' \<and> c \<noteq> CHR ''='' \<and> findArgByShortName p h c = Some a
       \<and> kind (h a) = IntOpt pValue userHandler \<and> stoll value = Inl (out_of_range s) \<longrightarrow>
      parse (argv0 # (CHR ''-'' # c # CHR ''='' # value) # rest) (p, h) =
        (Some (ParseException
           (''Parsing of '' @ [c] @ '' failed: '' @ ''Value is not in range of a 64 bit int'')),
         p, h(a := (h a)\<lparr>present := True\<rparr>)))
   \<and> (c \<noteq> CHR ''-'' \<and> c \<noteq> CHR ''='' \<and> findArgByShortName p h c = Some a
       \<and> kind (h a) = IntOpt pValue userHandler \<and> stoll value = Inl (invalid_argument s) \<longrightarrow>
      parse (argv0 # (CHR ''-'' # c # CHR ''='' # value) # rest) (p, h) =
        (Some (ParseException
           (''Parsing of '' @ [c] @ '' failed: '' @ ''Argument expects an integer value'')),
         p, h(a := (h a)\<lparr>present := True\<rparr>)))"
  proof (intro conjI impI)
    assume "findArgByShortName p h c = Some a"
    then have pc: "parse_char p c isValPresent value h = resolve a [c] isValPresent value h"
      by (simp add: parse_char_def)
    show "snd (parse_char p c isValPresent value h) =
        h(a := snd (defaultHandler isValPresent value (setPresent (h a))))"
      by (simp add: pc resolve_store)
    show "present (snd (parse_char p c isValPresent value h) a)"
      by (simp add: pc resolve_present)
    show "fst (parse_char p c isValPresent value h) \<noteq> None"
      if "fst (defaultHandler isValPresent value (setPresent (h a))) \<noteq> None"
      using that by (simp add: pc resolve_fails)
  next
    assume "findArgByLongName p h name = Some a"
    then have ps: "parse_string p name isValPresent value h = resolve a name isValPresent value h"
      by (simp add: parse_string_def)
    show "snd (parse_string p name isValPresent value h) =
        h(a := snd (defaultHandler isValPresent value (setPresent (h a))))"
      by (simp add: ps resolve_store)
    show "present (snd (parse_string p name isValPresent value h) a)"
      by (simp add: ps resolve_present)
    show "fst (parse_string p name isValPresent value h) \<noteq> None"
      if "fst (defaultHandler isValPresent value (setPresent (h a))) \<noteq> None"
      using that by (simp add: ps resolve_fails)
  next
    assume A: "c \<noteq> CHR ''-'' \<and> c \<noteq> CHR ''='' \<and> findArgByShortName p h c = Some a
         \<and> kind (h a) = IntOpt pValue userHandler \<and> stoll value = Inl (out_of_range s)"
    then have "defaultHandler True value (setPresent (h a)) =
        (Some (IntOpt_catch (out_of_range s)), setPresent (h a))"
      by (intro IntOpt_stoll_fails) (simp_all add: setPresent_def)
    then have "parse_char p c True value h =
        (Some (ParseException
           (''Parsing of '' @ [c] @ '' failed: '' @ ''Value is not in range of a 64 bit int'')),
         h(a := (h a)\<lparr>present := True\<rparr>))"
      using A by (simp add: parse_char_def resolve_rethrow IntOpt_catch_def setPresent_def)
    then show "parse (argv0 # (CHR ''-'' # c # CHR ''='' # value) # rest) (p, h) =
          (Some (ParseException
             (''Parsing of '' @ [c] @ '' failed: '' @ ''Value is not in range of a 64 bit int'')),
           p, h(a := (h a)\<lparr>present := True\<rparr>))"
      using A by (intro parse_single_short_value) simp_all
  next
    assume A: "c \<noteq> CHR ''-'' \<and> c \<noteq> CHR ''='' \<and> findArgByShortName p h c = Some a
         \<and> kind (h a) = IntOpt pValue userHandler \<and> stoll value = Inl (invalid_argument s)"
    then have "defaultHandler True value (setPresent (h a)) =
        (Some (IntOpt_catch (invalid_argument s)), setPresent (h a))"
      by (intro IntOpt_stoll_fails) (simp_all add: setPresent_def)
    then have "parse_char p c True value h =
        (Some (ParseException
           (''Parsing of '' @ [c] @ '' failed: '' @ ''Argument expects an integer value'')),
         h(a := (h a)\<lparr>present := True\<rparr>))"
      using A by (simp add: parse_char_def resolve_rethrow IntOpt_catch_def setPresent_def)
    then show "parse (argv0 # (CHR ''-'' # c # CHR ''='' # value) # rest) (p, h) =
          (Some (ParseException
             (''Parsing of '' @ [c] @ '' failed: '' @ ''Argument expects an integer value'')),
           p, h(a := (h a)\<lparr>present := True\<rparr>))"
      using A by (intro parse_single_short_value) simp_all
  qed
  have c5: "(''--'' \<notin> set pre \<and> parse_loop pre (p, h) = (None, p1, h1)
       \<and> str \<noteq> [] \<and> long_step str = (name, isValPresent, value)
       \<and> findArgByLongName p1 h1 name = Some a \<longrightarrow>
      present (snd (snd (parse (argv0 # pre @ (CHR ''-'' # CHR ''-'' # str) # post) (p, h))) a)
      \<and> (fst (defaultHandler isValPresent value (setPresent (h1 a))) \<noteq> None \<longrightarrow>
           fst (parse (argv0 # pre @ (CHR ''-'' # CHR ''-'' # str) # post) (p, h)) \<noteq> None
           \<and> snd (snd (parse (argv0 # pre @ (CHR ''-'' # CHR ''-'' # str) # post) (p, h))) =
               h1(a := snd (defaultHandler isValPresent value (setPresent (h1 a))))))"
    by (rule present_after_long)
  have c6: "(''--'' \<notin> set pre \<and> parse_loop pre (p, h) = (None, p1, h1)
       \<and> str \<noteq> [] \<and> hd str \<noteq> CHR ''-''
       \<and> cluster_steps str = before @ (c, isValPresent, value) # after
       \<and> resolve_all p1 before h1 = (None, hk)
       \<and> findArgByShortName p1 hk c = Some a \<longrightarrow>
      present (snd (snd (parse (argv0 # pre @ (CHR ''-'' # str) # post) (p, h))) a)
      \<and> (fst (defaultHandler isValPresent value (setPresent (hk a))) \<noteq> None \<longrightarrow>
           fst (parse (argv0 # pre @ (CHR ''-'' # str) # post) (p, h)) \<noteq> None
           \<and> snd (snd (parse (argv0 # pre @ (CHR ''-'' # str) # post) (p, h))) =
               hk(a := snd (defaultHandler isValPresent value (setPresent (hk a))))))"
    by (rule present_after_short)
  have c7: "((kind opt = IntOpt pValue userHandler \<and> (\<not> isValPresent \<or> stoll value = Inl e))
       \<or> (kind opt = UintOpt pValue userHandler
           \<and> (\<not> isValPresent \<or> \<not> isUint value \<or> stoull value = Inl e)) \<longrightarrow>
      fst (defaultHandler isValPresent value opt) \<noteq> None
      \<and> snd (defaultHandler isValPresent value opt) = opt)"
    by (rule integer_coercion_fails)
  have c8: "(''--'' \<notin> set pre \<and> parse_loop pre (p, h) = (None, p1, h1)
       \<and> str \<noteq> [] \<and> long_step str = (name, isValPresent, value)
       \<and> findArgByLongName p1 h1 name = Some a \<and> isValPresent
       \<and> ((kind (h1 a) = IntOpt pValue userHandler \<and> stoll value = Inl e)
            \<or> (kind (h1 a) = UintOpt pValue userHandler
                \<and> (\<not> isUint value \<or> stoull value = Inl e))) \<longrightarrow>
      fst (parse (argv0 # pre @ (CHR ''-'' # CHR ''-'' # str) # post) (p, h)) \<noteq> None
      \<and> snd (snd (parse (argv0 # pre @ (CHR ''-'' # CHR ''-'' # str) # post) (p, h))) = h1(a := (h1 a)\<lparr>present := True\<rparr>))"
  proof
    assume A: "''--'' \<notin> set pre \<and> parse_loop pre (p, h) = (None, p1, h1)
       \<and> str \<noteq> [] \<and> long_step str = (name, isValPresent, value)
       \<and> findArgByLongName p1 h1 name = Some a \<and> isValPresent
       \<and> ((kind (h1 a) = IntOpt pValue userHandler \<and> stoll value = Inl e)
            \<or> (kind (h1 a) = UintOpt pValue userHandler
                \<and> (\<not> isUint value \<or> stoull value = Inl e)))"
    then have "kind (setPresent (h1 a)) = IntOpt pValue userHandler \<and> (\<not> isValPresent \<or> stoll value = Inl e)
        \<or> kind (setPresent (h1 a)) = UintOpt pValue userHandler
          \<and> (\<not> isValPresent \<or> \<not> isUint value \<or> stoull value = Inl e)"
      by (auto simp: setPresent_def)
    then have "fst (defaultHandler isValPresent value (setPresent (h1 a))) \<noteq> None
        \<and> snd (defaultHandler isValPresent value (setPresent (h1 a))) = setPresent (h1 a)"
      by (rule integer_coercion_fails [rule_format])
    then show "fst (parse (argv0 # pre @ (CHR ''-'' # CHR ''-'' # str) # post) (p, h)) \<noteq> None
      \<and> snd (snd (parse (argv0 # pre @ (CHR ''-'' # CHR ''-'' # str) # post) (p, h))) = h1(a := (h1 a)\<lparr>present := True\<rparr>)"
      using A c5 by (simp add: setPresent_def)
  qed
  have c9: "(''--'' \<notin> set pre \<and> parse_loop pre (p, h) = (None, p1, h1)
       \<and> str \<noteq> [] \<and> hd str \<noteq> CHR ''-''
       \<and> cluster_steps str = before @ (c, isValPresent, value) # after
       \<and> resolve_all p1 before h1 = (None, hk)
       \<and> findArgByShortName p1 hk c = Some a \<and> isValPresent
       \<and> ((kind (hk a) = IntOpt pValue userHandler \<and> stoll value = Inl e)
            \<or> (kind (hk a) = UintOpt pValue userHandler
                \<and> (\<not> isUint value \<or> stoull value = Inl e))) \<longrightarrow>
      fst (parse (argv0 # pre @ (CHR ''-'' # str) # post) (p, h)) \<noteq> None
      \<and> snd (snd (parse (argv0 # pre @ (CHR ''-'' # str) # post) (p, h))) = hk(a := (hk a)\<lparr>present := True\<rparr>))"
  proof
    assume A: "''--'' \<notin> set pre \<and> parse_loop pre (p, h) = (None, p1, h1)
       \<and> str \<noteq> [] \<and> hd str \<noteq> CHR ''-''
       \<and> cluster_steps str = before @ (c, isValPresent, value) # after
       \<and> resolve_all p1 before h1 = (None, hk)
       \<and> findArgByShortName p1 hk c = Some a \<and> isValPresent
       \<and> ((kind (hk a) = IntOpt pValue userHandler \<and> stoll value = Inl e)
            \<or> (kind (hk a) = UintOpt pValue userHandler
                \<and> (\<not> isUint value \<or> stoull value = Inl e)))"
    then have "kind (setPresent (hk a)) = IntOpt pValue userHandler \<and> (\<not> isValPresent \<or> stoll value = Inl e)
        \<or> kind (setPresent (hk a)) = UintOpt pValue userHandler
          \<and> (\<not> isValPresent \<or> \<not> isUint value \<or> stoull value = Inl e)"
      by (auto simp: setPresent_def)
    then have "fst (defaultHandler isValPresent value (setPresent (hk a))) \<noteq> None
        \<and> snd (defaultHandler isValPresent value (setPresent (hk a))) = setPresent (hk a)"
      by (rule integer_coercion_fails [rule_format])
    then show "fst (parse (argv0 # pre @ (CHR ''-'' # str) # post) (p, h)) \<noteq> None
      \<and> snd (snd (parse (argv0 # pre @ (CHR ''-'' # str) # post) (p, h))) = hk(a := (hk a)\<lparr>present := True\<rparr>)"
      using A c6 by (simp add: setPresent_def)
  qed
  note o1 = old [THEN conjunct1]
    and o2 = old [THEN conjunct2, THEN conjunct1]
    and o3 = old [THEN conjunct2, THEN conjunct2, THEN conjunct1]
    and o4 = old [THEN conjunct2, THEN conjunct2, THEN conjunct2]
  show ?thesis
    by (intro conjI) (rule o1 o2 o3 o4 c5 c6 c7 c8 c9)+
qed

theorem present_before_coercion_witness:
  "(findArgByShortName test_parser test_store CHR ''i'' = Some 0
   \<and> fst (defaultHandler True ''1'' (setPresent (test_store 0))) \<noteq> None
   \<and> fst (parse_char test_parser CHR ''i'' True ''1'' test_store) \<noteq> None
   \<and> present (snd (parse_char test_parser CHR ''i'' True ''1'' test_store) 0)
   \<and> findArgByLongName test_parser test_store ''ls'' = Some 3
   \<and> fst (defaultHandler False [] (setPresent (test_store 3))) \<noteq> None
   \<and> fst (parse_string test_parser ''ls'' False [] test_store) \<noteq> None
   \<and> present (snd (parse_string test_parser ''ls'' False [] test_store) 3)
   \<and> findArgByShortName test_parser test_store CHR ''j'' = Some 1
   \<and> kind (test_store 1) = IntOpt 1100 None
   \<and> stoll ''9223372036854775808'' = Inl (out_of_range ''stoll'')
   \<and> parse [''zeta'', ''-j=9223372036854775808'', ''--is''] (test_parser, test_store) =
       (Some (ParseException ''Parsing of j failed: Value is not in range of a 64 bit int''),
        test_parser, test_store(1 := (test_store 1)\<lparr>present := True\<rparr>))
   \<and> stoll ''abc'' = Inl (invalid_argument ''stoll'')
   \<and> parse [''zeta'', ''-j=abc'', ''--is''] (test_parser, test_store) =
       (Some (ParseException ''Parsing of j failed: Argument expects an integer value''),
        test_parser, test_store(1 := (test_store 1)\<lparr>present := True\<rparr>)))
   \<and> (''--'' \<notin> set [''--is'']
   \<and> parse_loop [''--is''] (test_parser, test_store) = (None, test_parser, test_store(0 := (test_store 0)\<lparr>present := True, kind := BoolOpt True None\<rparr>))
   \<and> long_step ''js=abc'' = (''js'', True, ''abc'')
   \<and> findArgByLongName test_parser (test_store(0 := (test_store 0)\<lparr>present := True, kind := BoolOpt True None\<rparr>)) ''js'' = Some 1
   \<and> fst (defaultHandler True ''abc'' (setPresent ((test_store(0 := (test_store 0)\<lparr>present := True, kind := BoolOpt True None\<rparr>)) 1))) \<noteq> None
   \<and> present (snd (snd (parse [''zeta'', ''--is'', ''--js=abc'', ''-x''] (test_parser, test_store))) 1)
   \<and> fst (parse [''zeta'', ''--is'', ''--js=abc'', ''-x''] (test_parser, test_store)) \<noteq> None
   \<and> snd (snd (parse [''zeta'', ''--is'', ''--js=abc'', ''-x''] (test_parser, test_store))) =
       test_store(0 := (test_store 0)\<lparr>present := True, kind := BoolOpt True None\<rparr>,
                  1 := (test_store 1)\<lparr>present := True\<rparr>)
   \<and> cluster_steps ''il'' = [(CHR ''i'', False, [])] @ (CHR ''l'', False, []) # []
   \<and> resolve_all test_parser [(CHR ''i'', False, [])] test_store = (None, test_store(0 := (test_store 0)\<lparr>present := True, kind := BoolOpt True None\<rparr>))
   \<and> findArgByShortName test_parser (test_store(0 := (test_store 0)\<lparr>present := True, kind := BoolOpt True None\<rparr>)) CHR ''l'' = Some 3
   \<and> fst (defaultHandler False [] (setPresent ((test_store(0 := (test_store 0)\<lparr>present := True, kind := BoolOpt True None\<rparr>)) 3))) \<noteq> None
   \<and> present (snd (snd (parse [''zeta'', ''-il'', ''-x''] (test_parser, test_store))) 3)
   \<and> fst (parse [''zeta'', ''-il'', ''-x''] (test_parser, test_store)) \<noteq> None
   \<and> snd (snd (parse [''zeta'', ''-il'', ''-x''] (test_parser, test_store))) =
       test_store(0 := (test_store 0)\<lparr>present := True, kind := BoolOpt True None\<rparr>,
                  3 := (test_store 3)\<lparr>present := True\<rparr>)
   \<and> stoll ''abc'' = Inl (invalid_argument ''stoll'')
   \<and> fst (defaultHandler True ''abc'' (test_store 1)) \<noteq> None
   \<and> snd (defaultHandler True ''abc'' (test_store 1)) = test_store 1
   \<and> isUint ''18446744073709551616''
   \<and> stoull ''18446744073709551616'' = Inl (out_of_range ''stoull'')
   \<and> fst (defaultHandler True ''18446744073709551616'' (test_store 2)) \<noteq> None
   \<and> snd (defaultHandler True ''18446744073709551616'' (test_store 2)) = test_store 2
   \<and> long_step ''ks=-22'' = (''ks'', True, ''-22'')
   \<and> findArgByLongName test_parser (test_store(0 := (test_store 0)\<lparr>present := True, kind := BoolOpt True None\<rparr>)) ''ks'' = Some 2
   \<and> \<not> isUint ''-22''
   \<and> fst (parse [''zeta'', ''--is'', ''--ks=-22'', ''-x''] (test_parser, test_store)) \<noteq> None
   \<and> snd (snd (parse [''zeta'', ''--is'', ''--ks=-22'', ''-x''] (test_parser, test_store))) =
       test_store(0 := (test_store 0)\<lparr>present := True, kind := BoolOpt True None\<rparr>,
                  2 := (test_store 2)\<lparr>present := True\<rparr>)
   \<and> cluster_steps ''ij=abc'' = [(CHR ''i'', False, [])] @ (CHR ''j'', True, ''abc'') # []
   \<and> findArgByShortName test_parser (test_store(0 := (test_store 0)\<lparr>present := True, kind := BoolOpt True None\<rparr>)) CHR ''j'' = Some 1
   \<and> fst (parse [''zeta'', ''-ij=abc'', ''-x''] (test_parser, test_store)) \<noteq> None
   \<and> snd (snd (parse [''zeta'', ''-ij=abc'', ''-x''] (test_parser, test_store))) =
       test_store(0 := (test_store 0)\<lparr>present := True, kind := BoolOpt True None\<rparr>,
                  1 := (test_store 1)\<lparr>present := True\<rparr>))"
proof -
  have old: "findArgByShortName test_parser test_store CHR ''i'' = Some 0
   \<and> fst (defaultHandler True ''1'' (setPresent (test_store 0))) \<noteq> None
   \<and> fst (parse_char test_parser CHR ''i'' True ''1'' test_store) \<noteq> None
   \<and> present (snd (parse_char test_parser CHR ''i'' True ''1'' test_store) 0)
   \<and> findArgByLongName test_parser test_store ''ls'' = Some 3
   \<and> fst (defaultHandler False [] (setPresent (test_store 3))) \<noteq> None
   \<and> fst (parse_string test_parser ''ls'' False [] test_store) \<noteq> None
   \<and> present (snd (parse_string test_parser ''ls'' False [] test_store) 3)
   \<and> findArgByShortName test_parser test_store CHR ''j'' = Some 1
   \<and> kind (test_store 1) = IntOpt 1100 None
   \<and> stoll ''9223372036854775808'' = Inl (out_of_range ''stoll'')
   \<and> parse [''zeta'', ''-j=9223372036854775808'', ''--is''] (test_parser, test_store) =
       (Some (ParseException ''Parsing of j failed: Value is not in range of a 64 bit int''),
        test_parser, test_store(1 := (test_store 1)\<lparr>present := True\<rparr>))
   \<and> stoll ''abc'' = Inl (invalid_argument ''stoll'')
   \<and> parse [''zeta'', ''-j=abc'', ''--is''] (test_parser, test_store) =
       (Some (ParseException ''Parsing of j failed: Argument expects an integer value''),
        test_parser, test_store(1 := (test_store 1)\<lparr>present := True\<rparr>))"
  proof -
    note t1 = present_before_coercion [of test_parser test_store "CHR ''i''" 0 True "''1''"
        "''ls''" 1100 None "''stoll''" "''zeta''" "[''--is'']"]
    note t2 = present_before_coercion [of test_parser test_store "CHR ''j''" 3 False "[]"
        "''ls''" 1100 None "''stoll''" "''zeta''" "[''--is'']"]
    note t3 = present_before_coercion [of test_parser test_store "CHR ''j''" 1 True
        "''9223372036854775808''" "''js''" 1100 None "''stoll''" "''zeta''" "[''--is'']"]
    note t4 = present_before_coercion [of test_parser test_store "CHR ''j''" 1 True
        "''abc''" "''js''" 1100 None "''stoll''" "''zeta''" "[''--is'']"]
    have d1: "fst (defaultHandler True ''1'' (setPresent (test_store 0))) \<noteq> None"
      by (simp add: defaultHandler_def BoolOpt_defaultHandler_def setPresent_def test_kind)
    have d2: "fst (defaultHandler False [] (setPresent (test_store 3))) \<noteq> None"
      by (simp add: defaultHandler_def StrOpt_defaultHandler_def setPresent_def test_kind)
    have s1: "fst (parse_char test_parser CHR ''i'' True ''1'' test_store) \<noteq> None
        \<and> present (snd (parse_char test_parser CHR ''i'' True ''1'' test_store) 0)"
      using t1 [THEN conjunct1] d1 test_find(1) by blast
    have s2: "fst (parse_string test_parser ''ls'' False [] test_store) \<noteq> None
        \<and> present (snd (parse_string test_parser ''ls'' False [] test_store) 3)"
      using t2 [THEN conjunct2, THEN conjunct1] d2 test_find(8) by blast
    have s3: "parse [''zeta'', ''-j=9223372036854775808'', ''--is''] (test_parser, test_store) =
         (Some (ParseException ''Parsing of j failed: Value is not in range of a 64 bit int''),
          test_parser, test_store(1 := (test_store 1)\<lparr>present := True\<rparr>))"
      using t3 [THEN conjunct2, THEN conjunct2, THEN conjunct1] test_find(2) test_kind(2)
      by (simp add: stoll_2_63)
    have s4: "parse [''zeta'', ''-j=abc'', ''--is''] (test_parser, test_store) =
         (Some (ParseException ''Parsing of j failed: Argument expects an integer value''),
          test_parser, test_store(1 := (test_store 1)\<lparr>present := True\<rparr>))"
      using t4 [THEN conjunct2, THEN conjunct2, THEN conjunct2] test_find(2) test_kind(2)
      by (simp add: stoll_abc)
    show ?thesis
      using d1 d2 s1 s2 s3 s4 test_find(1,2,8) test_kind(2) stoll_2_63 stoll_abc by blast
  qed
  define hi where "hi = test_store(0 := (test_store 0)\<lparr>present := True, kind := BoolOpt True None\<rparr>)"
  have n: "''--'' \<notin> set [''--is'']" and n0: "''--'' \<notin> set ([] :: string list)"
    by simp_all
  have li: "parse_loop [''--is''] (test_parser, test_store) = (None, test_parser, hi)"
    by (simp add: eval_defs test_store_def hi_def)
  have l0: "parse_loop [] (test_parser, test_store) = (None, test_parser, test_store)"
    by simp
  have lj: "long_step ''js=abc'' = (''js'', True, ''abc'')"
    and lk: "long_step ''ks=-22'' = (''ks'', True, ''-22'')"
    by (simp_all add: long_step_def)
  have cl: "cluster_steps ''il'' = [(CHR ''i'', False, [])] @ (CHR ''l'', False, []) # []"
    by (simp add: cluster_steps_def)
  have cj: "cluster_steps ''ij=abc'' = [(CHR ''i'', False, [])] @ (CHR ''j'', True, ''abc'') # []"
    using cluster_steps_value [of "''i''" "CHR ''j''" "''abc''"] by simp
  have ri: "resolve_all test_parser [(CHR ''i'', False, [])] test_store = (None, hi)"
    by (simp add: eval_defs test_store_def hi_def)
  have fj: "findArgByLongName test_parser hi ''js'' = Some 1"
    and fk: "findArgByLongName test_parser hi ''ks'' = Some 2"
    and fl: "findArgByShortName test_parser hi CHR ''l'' = Some 3"
    and fsj: "findArgByShortName test_parser hi CHR ''j'' = Some 1"
    by (simp_all add: eval_defs test_store_def hi_def)
  have hi1: "hi 1 = test_store 1" and hi2: "hi 2 = test_store 2" and hi3: "hi 3 = test_store 3"
    by (simp_all add: hi_def)
  have kj: "kind (hi 1) = IntOpt 1100 None" and kk: "kind (hi 2) = UintOpt 2200 None"
    by (simp_all add: hi_def test_store_def)
  have dj: "defaultHandler True ''abc'' (setPresent (hi 1)) =
      (Some (ParseException ''Argument expects an integer value''), (test_store 1)\<lparr>present := True\<rparr>)"
    by (simp add: eval_defs test_store_def hi_def)
  have dl: "defaultHandler False [] (setPresent (hi 3)) =
      (Some (ParseException ''Argument expects a value''), (test_store 3)\<lparr>present := True\<rparr>)"
    by (simp add: eval_defs test_store_def hi_def)
  have sa: "stoll ''abc'' = Inl (invalid_argument ''stoll'')"
    by (rule stoll_abc)
  have u1: "isUint ''18446744073709551616''" and u2: "\<not> isUint ''-22''"
    by (simp_all add: isUint_def isdigit_def)
  have su: "stoull ''18446744073709551616'' = Inl (out_of_range ''stoull'')"
    by (simp add: stoull_def scan_number_def isspace_def isdigit_def digits_value_def
        digit_value_def)
  note t5 = present_before_coercion [of test_parser test_store _ 1 True "''abc''" "''js''" _ _ _ "''zeta''" _ "[''--is'']" test_parser hi "''js=abc''" "[''-x'']", THEN conjunct2, THEN conjunct2, THEN conjunct2, THEN conjunct2, THEN conjunct1]
  note t6 = present_before_coercion [of test_parser test_store "CHR ''l''" 3 False "[]" _ _ _ _ "''zeta''" _ "[]" test_parser test_store "''il''" "[''-x'']" "[(CHR ''i'', False, [])]" "[]" hi,
      THEN conjunct2, THEN conjunct2, THEN conjunct2, THEN conjunct2, THEN conjunct2,
      THEN conjunct1]
  note t7i = present_before_coercion [of _ _ _ _ True "''abc''" _ 1100 None _ _ _ _ _ _ _ _ _ _ _ "test_store 1" "invalid_argument ''stoll''",
      THEN conjunct2, THEN conjunct2, THEN conjunct2, THEN conjunct2, THEN conjunct2,
      THEN conjunct2, THEN conjunct1]
  note t7u = present_before_coercion [of _ _ _ _ True "''18446744073709551616''" _ 2200 None _ _ _ _ _ _ _ _ _ _ _ "test_store 2" "out_of_range ''stoull''",
      THEN conjunct2, THEN conjunct2, THEN conjunct2, THEN conjunct2, THEN conjunct2,
      THEN conjunct2, THEN conjunct1]
  note t8 = present_before_coercion [of test_parser test_store _ 2 True "''-22''" "''ks''" 2200 None _ "''zeta''" _ "[''--is'']" test_parser hi "''ks=-22''" "[''-x'']",
      THEN conjunct2, THEN conjunct2, THEN conjunct2, THEN conjunct2, THEN conjunct2,
      THEN conjunct2, THEN conjunct2, THEN conjunct1]
  note t9 = present_before_coercion [of test_parser test_store "CHR ''j''" 1 True "''abc''" _ 1100 None _ "''zeta''" _ "[]" test_parser test_store "''ij=abc''" "[''-x'']" "[(CHR ''i'', False, [])]" "[]" hi _ "invalid_argument ''stoll''",
      THEN conjunct2, THEN conjunct2, THEN conjunct2, THEN conjunct2, THEN conjunct2,
      THEN conjunct2, THEN conjunct2, THEN conjunct2]
  have d5: "fst (defaultHandler True ''abc'' (setPresent (hi 1))) \<noteq> None"
    and d6: "fst (defaultHandler False [] (setPresent (hi 3))) \<noteq> None"
    using dj dl by simp_all
  have r5: "present (snd (snd (parse [''zeta'', ''--is'', ''--js=abc'', ''-x''] (test_parser, test_store))) 1)
      \<and> fst (parse [''zeta'', ''--is'', ''--js=abc'', ''-x''] (test_parser, test_store)) \<noteq> None
      \<and> snd (snd (parse [''zeta'', ''--is'', ''--js=abc'', ''-x''] (test_parser, test_store))) = hi(1 := (test_store 1)\<lparr>present := True\<rparr>)"
    using t5 n li lj fj d5 dj by simp
  have r6: "present (snd (snd (parse [''zeta'', ''-il'', ''-x''] (test_parser, test_store))) 3)
      \<and> fst (parse [''zeta'', ''-il'', ''-x''] (test_parser, test_store)) \<noteq> None
      \<and> snd (snd (parse [''zeta'', ''-il'', ''-x''] (test_parser, test_store))) = hi(3 := (test_store 3)\<lparr>present := True\<rparr>)"
    using t6 n0 l0 cl ri fl d6 dl by simp
  have r7i: "fst (defaultHandler True ''abc'' (test_store 1)) \<noteq> None
      \<and> snd (defaultHandler True ''abc'' (test_store 1)) = test_store 1"
    using t7i test_kind(2) sa by blast
  have r7u: "fst (defaultHandler True ''18446744073709551616'' (test_store 2)) \<noteq> None
      \<and> snd (defaultHandler True ''18446744073709551616'' (test_store 2)) = test_store 2"
    using t7u test_kind(3) su by blast
  have r8: "fst (parse [''zeta'', ''--is'', ''--ks=-22'', ''-x''] (test_parser, test_store)) \<noteq> None
      \<and> snd (snd (parse [''zeta'', ''--is'', ''--ks=-22'', ''-x''] (test_parser, test_store))) = hi(2 := (test_store 2)\<lparr>present := True\<rparr>)"
    using t8 n li lk fk kk u2 hi2 by simp
  have r9: "fst (parse [''zeta'', ''-ij=abc'', ''-x''] (test_parser, test_store)) \<noteq> None
      \<and> snd (snd (parse [''zeta'', ''-ij=abc'', ''-x''] (test_parser, test_store))) = hi(1 := (test_store 1)\<lparr>present := True\<rparr>)"
    using t9 n0 l0 cj ri fsj kj sa hi1 by simp
  have new: "''--'' \<notin> set [''--is'']
   \<and> parse_loop [''--is''] (test_parser, test_store) = (None, test_parser, test_store(0 := (test_store 0)\<lparr>present := True, kind := BoolOpt True None\<rparr>))
   \<and> long_step ''js=abc'' = (''js'', True, ''abc'')
   \<and> findArgByLongName test_parser (test_store(0 := (test_store 0)\<lparr>present := True, kind := BoolOpt True None\<rparr>)) ''js'' = Some 1
   \<and> fst (defaultHandler True ''abc'' (setPresent ((test_store(0 := (test_store 0)\<lparr>present := True, kind := BoolOpt True None\<rparr>)) 1))) \<noteq> None
   \<and> present (snd (snd (parse [''zeta'', ''--is'', ''--js=abc'', ''-x''] (test_parser, test_store))) 1)
   \<and> fst (parse [''zeta'', ''--is'', ''--js=abc'', ''-x''] (test_parser, test_store)) \<noteq> None
   \<and> snd (snd (parse [''zeta'', ''--is'', ''--js=abc'', ''-x''] (test_parser, test_store))) =
       test_store(0 := (test_store 0)\<lparr>present := True, kind := BoolOpt True None\<rparr>,
                  1 := (test_store 1)\<lparr>present := True\<rparr>)
   \<and> cluster_steps ''il'' = [(CHR ''i'', False, [])] @ (CHR ''l'', False, []) # []
   \<and> resolve_all test_parser [(CHR ''i'', False, [])] test_store = (None, test_store(0 := (test_store 0)\<lparr>present := True, kind := BoolOpt True None\<rparr>))
   \<and> findArgByShortName test_parser (test_store(0 := (test_store 0)\<lparr>present := True, kind := BoolOpt True None\<rparr>)) CHR ''l'' = Some 3
   \<and> fst (defaultHandler False [] (setPresent ((test_store(0 := (test_store 0)\<lparr>present := True, kind := BoolOpt True None\<rparr>)) 3))) \<noteq> None
   \<and> present (snd (snd (parse [''zeta'', ''-il'', ''-x''] (test_parser, test_store))) 3)
   \<and> fst (parse [''zeta'', ''-il'', ''-x''] (test_parser, test_store)) \<noteq> None
   \<and> snd (snd (parse [''zeta'', ''-il'', ''-x''] (test_parser, test_store))) =
       test_store(0 := (test_store 0)\<lparr>present := True, kind := BoolOpt True None\<rparr>,
                  3 := (test_store 3)\<lparr>present := True\<rparr>)
   \<and> stoll ''abc'' = Inl (invalid_argument ''stoll'')
   \<and> fst (defaultHandler True ''abc'' (test_store 1)) \<noteq> None
   \<and> snd (defaultHandler True ''abc'' (test_store 1)) = test_store 1
   \<and> isUint ''18446744073709551616''
   \<and> stoull ''18446744073709551616'' = Inl (out_of_range ''stoull'')
   \<and> fst (defaultHandler True ''18446744073709551616'' (test_store 2)) \<noteq> None
   \<and> snd (defaultHandler True ''18446744073709551616'' (test_store 2)) = test_store 2
   \<and> long_step ''ks=-22'' = (''ks'', True, ''-22'')
   \<and> findArgByLongName test_parser (test_store(0 := (test_store 0)\<lparr>present := True, kind := BoolOpt True None\<rparr>)) ''ks'' = Some 2
   \<and> \<not> isUint ''-22''
   \<and> fst (parse [''zeta'', ''--is'', ''--ks=-22'', ''-x''] (test_parser, test_store)) \<noteq> None
   \<and> snd (snd (parse [''zeta'', ''--is'', ''--ks=-22'', ''-x''] (test_parser, test_store))) =
       test_store(0 := (test_store 0)\<lparr>present := True, kind := BoolOpt True None\<rparr>,
                  2 := (test_store 2)\<lparr>present := True\<rparr>)
   \<and> cluster_steps ''ij=abc'' = [(CHR ''i'', False, [])] @ (CHR ''j'', True, ''abc'') # []
   \<and> findArgByShortName test_parser (test_store(0 := (test_store 0)\<lparr>present := True, kind := BoolOpt True None\<rparr>)) CHR ''j'' = Some 1
   \<and> fst (parse [''zeta'', ''-ij=abc'', ''-x''] (test_parser, test_store)) \<noteq> None
   \<and> snd (snd (parse [''zeta'', ''-ij=abc'', ''-x''] (test_parser, test_store))) =
       test_store(0 := (test_store 0)\<lparr>present := True, kind := BoolOpt True None\<rparr>,
                  1 := (test_store 1)\<lparr>present := True\<rparr>)"
    using n li lj fj d5 r5 cl ri fl d6 r6 sa r7i u1 su r7u lk fk u2 r8 cj fsj r9
    unfolding hi_def by (intro conjI) blast+
  show ?thesis
    using old new by blast
qed

end
